theory Spec2Isabelle
  imports
    Complex_Main
    "HOL-Library.Char_ord"
    "HOL-Library.List_Lexorder"
    "HOL-Library.Product_Lexorder"
begin

section \<open>Strings of the HTTP routes\<close>

text \<open>
  A JavaScript string is modelled as a \<^typ>\<open>string\<close>: one \<^typ>\<open>char\<close> per code unit,
  restricted to the code units below 256. Of the white space that \<^verbatim>\<open>String.prototype.trim\<close>
  and \<^verbatim>\<open>parseInt\<close> strip, the members below 256 are TAB, LF, VT, FF, CR, SPACE and NBSP.
\<close>

definition is_js_space :: "char \<Rightarrow> bool" where
  "is_js_space c =
     (c \<in> set [CHR 0x09, CHR 0x0A, CHR 0x0B, CHR 0x0C, CHR 0x0D, CHR 0x20, CHR 0xA0])"

definition trim :: "string \<Rightarrow> string" where
  "trim s = rev (dropWhile is_js_space (rev (dropWhile is_js_space s)))"

text \<open>\<^verbatim>\<open>validateWorldName\<close> of the whitelist and server-properties routes:
  \<^verbatim>\<open>/^[A-Za-z0-9._-]+$/.test(world)\<close>.\<close>

definition world_chars :: string where
  "world_chars =
     ''ABCDEFGHIJKLMNOPQRSTUVWXYZabcdefghijklmnopqrstuvwxyz0123456789._-''"

definition validateWorldName :: "string \<Rightarrow> bool" where
  "validateWorldName world = (world \<noteq> [] \<and> list_all (\<lambda>c. c \<in> set world_chars) world)"

text \<open>Decimal digits, \<^verbatim>\<open>String(n)\<close> for an integer and \<^verbatim>\<open>Number.parseInt(s, 10)\<close>.
  \<^verbatim>\<open>parseInt\<close> skips leading white space, reads an optional sign and the longest run of
  digits, and yields NaN (here \<^const>\<open>None\<close>) when that run is empty. Values are kept exact; the
  rounding of JavaScript numbers above \<open>2^53\<close> is not modelled.\<close>

definition is_digit :: "char \<Rightarrow> bool" where
  "is_digit c = (48 \<le> (of_char c :: nat) \<and> (of_char c :: nat) \<le> 57)"

definition digit_val :: "char \<Rightarrow> nat" where
  "digit_val c = of_char c - 48"

definition digit_char :: "nat \<Rightarrow> char" where
  "digit_char d = char_of (48 + d)"

definition dec_value :: "string \<Rightarrow> nat" where
  "dec_value ds = foldl (\<lambda>a c. 10 * a + digit_val c) 0 ds"

fun dec_digits :: "nat \<Rightarrow> string" where
  "dec_digits n =
     (if n < 10 then [digit_char n] else dec_digits (n div 10) @ [digit_char (n mod 10)])"

declare dec_digits.simps [simp del]

definition js_String :: "int \<Rightarrow> string" where
  "js_String i = (if i < 0 then CHR ''-'' # dec_digits (nat (- i)) else dec_digits (nat i))"

definition parseInt10 :: "string \<Rightarrow> int option" where
  "parseInt10 s =
     (let s1 = dropWhile is_js_space s;
          neg = (case s1 of [] \<Rightarrow> False | c # _ \<Rightarrow> c = CHR ''-'');
          s2 = (case s1 of [] \<Rightarrow> [] | c # r \<Rightarrow> if c = CHR ''-'' \<or> c = CHR ''+'' then r else s1);
          ds = takeWhile is_digit s2
      in if ds = [] then None
         else Some (if neg then - int (dec_value ds) else int (dec_value ds)))"

section \<open>PID registry and the status and stop routes\<close>

text \<open>
  The state the routes act on. \<open>pid_files\<close> is the registry: the text of
  \<^verbatim>\<open>.mc-pids/<name>.pid\<close>, keyed by the trimmed world name (two names that denote the same
  path are not identified); \<open>pid_dir\<close> says whether the directory \<^verbatim>\<open>.mc-pids\<close> exists.
  \<open>world_dirs\<close> holds the names whose directory under \<^verbatim>\<open>worlds/\<close> has been ensured,
  \<open>jar_writes\<close> the paths of downloaded jars. \<open>procs\<close> is the operating system's side:
  the pid arguments for which \<^verbatim>\<open>process.kill\<close> succeeds; a spawned child is in it as soon
  as \<^verbatim>\<open>spawn\<close> has returned its pid. \<open>kill_log\<close> records every call of \<^verbatim>\<open>process.kill\<close>
  that reaches the operating system, \<open>spawn_log\<close> the argument vector of every
  \<^verbatim>\<open>spawn('java', args)\<close> that returned a child, \<open>archives\<close> the names of the backup
  archives on disk. File-system calls other than the reading of a pid file are taken to
  succeed.
\<close>

datatype signal = Sig0 | SIGTERM

record sys =
  pid_dir :: bool
  pid_files :: "string \<rightharpoonup> string"
  world_dirs :: "string set"
  jar_writes :: "string list"
  procs :: "int set"
  kill_log :: "(int \<times> signal) list"
  spawn_log :: "string list list"
  archives :: "string list"

text \<open>\<^verbatim>\<open>fs.unlink(pidFile(name))\<close> and \<^verbatim>\<open>fs.writeFile(pidFile(name), text)\<close>.\<close>

definition unlink_pid :: "string \<Rightarrow> sys \<Rightarrow> sys" where
  "unlink_pid name s = s\<lparr>pid_files := fun_upd (pid_files s) name None\<rparr>"

definition write_pid :: "string \<Rightarrow> string \<Rightarrow> sys \<Rightarrow> sys" where
  "write_pid name txt s = s\<lparr>pid_files := fun_upd (pid_files s) name (Some txt)\<rparr>"

definition log_kill :: "int \<Rightarrow> signal \<Rightarrow> sys \<Rightarrow> sys" where
  "log_kill p sg s = s\<lparr>kill_log := kill_log s @ [(p, sg)]\<rparr>"

text \<open>\<^verbatim>\<open>isAlive\<close> of the stop and status routes: false without a signal for NaN and for
  \<open>pid \<le> 0\<close>, else the outcome of \<^verbatim>\<open>process.kill(pid, 0)\<close>.\<close>

definition isAlive :: "int option \<Rightarrow> sys \<Rightarrow> bool \<times> sys" where
  "isAlive pid s =
     (case pid of
        None \<Rightarrow> (False, s)
      | Some p \<Rightarrow>
          if p \<le> 0 then (False, s)
          else (p \<in> procs s, log_kill p Sig0 s))"

text \<open>\<^verbatim>\<open>isAlive\<close> of the start route: no guard, the probe is always sent
  (\<^verbatim>\<open>process.kill(NaN, 0)\<close> throws before any signal, so NaN is not logged).\<close>

definition start_isAlive :: "int \<Rightarrow> sys \<Rightarrow> bool \<times> sys" where
  "start_isAlive p s = (p \<in> procs s, log_kill p Sig0 s)"

datatype status_response =
    StatusBadRequest
  | Status bool "int option"

text \<open>\<^verbatim>\<open>GET /api/server/status\<close>; the argument is \<^verbatim>\<open>searchParams.get('worldName')\<close>.\<close>

definition status :: "string option \<Rightarrow> sys \<Rightarrow> status_response \<times> sys" where
  "status param s =
     (let worldName = trim (case param of None \<Rightarrow> [] | Some w \<Rightarrow> w)
      in if worldName = [] then (StatusBadRequest, s)
         else case pid_files s worldName of
                None \<Rightarrow> (Status False None, s)
              | Some txt \<Rightarrow>
                  let pid = parseInt10 txt;
                      (running, s1) = isAlive pid s
                  in (Status running (if running then pid else None), s1))"

datatype stop_response =
    StopBadRequest
  | AlreadyStopped string
  | Stopped int

text \<open>\<^verbatim>\<open>POST\<close> of the stop route. \<open>vanished\<close> says that the process exits between the
  liveness probe and the termination signal, so that \<^verbatim>\<open>process.kill(pid, 'SIGTERM')\<close>
  throws. The route calls no backup code.\<close>

definition stop :: "bool \<Rightarrow> string option \<Rightarrow> sys \<Rightarrow> stop_response \<times> sys" where
  "stop vanished body_worldName s =
     (let name = trim (case body_worldName of None \<Rightarrow> [] | Some w \<Rightarrow> w)
      in if name = [] then (StopBadRequest, s)
         else case pid_files s name of
                None \<Rightarrow> (AlreadyStopped ''No running server found (no PID file).'', s)
              | Some pidText \<Rightarrow>
                  let pid = parseInt10 pidText;
                      (alive, s1) = isAlive pid s
                  in case (alive, pid) of
                       (True, Some p) \<Rightarrow>
                         let s2 = log_kill p SIGTERM s1
                         in if vanished
                            then (AlreadyStopped ''Process already exited.'', unlink_pid name s2)
                            else (Stopped p, unlink_pid name s2)
                     | _ \<Rightarrow>
                         (AlreadyStopped ''No running server found (stale PID cleaned).'',
                          unlink_pid name s1))"

section \<open>Port allocator\<close>

text \<open>
  The operating system is a function from the port passed to \<^verbatim>\<open>srv.listen\<close> (host
  \<^verbatim>\<open>0.0.0.0\<close>, exclusive) to the event the server then emits: \<^verbatim>\<open>error\<close>, or
  \<^verbatim>\<open>listening\<close> with the value of \<^verbatim>\<open>srv.address()\<close>. Every function returns, beside its
  result, the ports it passed to \<^verbatim>\<open>listen\<close>, in order.
\<close>

datatype address = AddressInfo int | PipeName string | NullAddress

datatype listen_event = ListenError | Listening address

definition checkPortAvailable :: "(int \<Rightarrow> listen_event) \<Rightarrow> int \<Rightarrow> bool \<times> int list" where
  "checkPortAvailable os port =
     (case os port of ListenError \<Rightarrow> (False, [port]) | Listening _ \<Rightarrow> (True, [port]))"

text \<open>The promise of \<^verbatim>\<open>getEphemeralPort\<close> rejects (\<^const>\<open>None\<close>) on \<^verbatim>\<open>error\<close>.\<close>

definition getEphemeralPort :: "(int \<Rightarrow> listen_event) \<Rightarrow> int option \<times> int list" where
  "getEphemeralPort os =
     (case os 0 of
        ListenError \<Rightarrow> (None, [0])
      | Listening addr \<Rightarrow>
          (Some (case addr of AddressInfo chosen \<Rightarrow> chosen | _ \<Rightarrow> 0), [0]))"

definition findAvailablePort ::
  "(int \<Rightarrow> listen_event) \<Rightarrow> int \<Rightarrow> (int \<times> bool) option \<times> int list" where
  "findAvailablePort os preferred =
     (let (ok, l1) = checkPortAvailable os preferred
      in if ok then (Some (preferred, False), l1)
         else let (ephem, l2) = getEphemeralPort os
              in (case ephem of
                    None \<Rightarrow> (None, l1 @ l2)
                  | Some e \<Rightarrow> (Some (e, True), l1 @ l2)))"

section \<open>Artifact resolver\<close>

text \<open>ASCII case folding: \<^verbatim>\<open>toLowerCase\<close> followed by a comparison with an ASCII literal,
  and the \<^verbatim>\<open>i\<close> flag of a regular expression without the \<^verbatim>\<open>u\<close> flag, both identify
  exactly the letters \<open>A\<close>-\<open>Z\<close> with \<open>a\<close>-\<open>z\<close> among the code units below 256
  (Latin-1 capitals fold to code units that no ASCII literal contains).\<close>

definition toLowerCase_char :: "char \<Rightarrow> char" where
  "toLowerCase_char c =
     (let n = (of_char c :: nat)
      in if (65 \<le> n \<and> n \<le> 90) \<or> (192 \<le> n \<and> n \<le> 222 \<and> n \<noteq> 215) then char_of (n + 32) else c)"

definition toLowerCase :: "string \<Rightarrow> string" where
  "toLowerCase s = map toLowerCase_char s"

definition endsWith :: "string \<Rightarrow> string \<Rightarrow> bool" where
  "endsWith s suf = (length suf \<le> length s \<and> drop (length s - length suf) s = suf)"

definition startsWith :: "string \<Rightarrow> string \<Rightarrow> bool" where
  "startsWith s pre = (take (length pre) s = pre)"

text \<open>\<^verbatim>\<open>/^server.*\.jar$/i.test(n)\<close>: the dot matches no line terminator (LF, CR).\<close>

definition is_server_jar :: "string \<Rightarrow> bool" where
  "is_server_jar n =
     (10 \<le> length n \<and>
      toLowerCase (take 6 n) = ''server'' \<and>
      toLowerCase (drop (length n - 4) n) = ''.jar'' \<and>
      list_all (\<lambda>c. c \<noteq> CHR 0x0A \<and> c \<noteq> CHR 0x0D) (take (length n - 10) (drop 6 n)))"

text \<open>\<^verbatim>\<open>path.join(dir, n)\<close>, without the normalisation of \<^verbatim>\<open>.\<close> and \<^verbatim>\<open>..\<close> segments.\<close>

definition path_join :: "string \<Rightarrow> string \<Rightarrow> string" where
  "path_join d n = d @ ''/'' @ n"

text \<open>
  \<^verbatim>\<open>findExistingJar\<close>. \<open>readdir\<close> gives the entries of a directory in the order
  \<^verbatim>\<open>fs.readdir\<close> returns them, each with \<^verbatim>\<open>isFile()\<close>, or \<^const>\<open>None\<close> when it throws;
  \<open>stat\<close> gives \<^verbatim>\<open>mtimeMs\<close> of a path, or \<^const>\<open>None\<close> when \<^verbatim>\<open>fs.stat\<close> throws.
  \<^verbatim>\<open>Array.prototype.sort\<close> is stable; with the comparator \<^verbatim>\<open>b.t - a.t\<close> it is the stable
  sort by descending time.
\<close>

definition jar_candidates :: "(string \<times> bool) list \<Rightarrow> string list" where
  "jar_candidates entries =
     map fst (filter (\<lambda>e. snd e \<and> endsWith (toLowerCase (fst e)) ''.jar'') entries)"

definition findExistingJar ::
  "(string \<Rightarrow> (string \<times> bool) list option) \<Rightarrow> (string \<Rightarrow> rat option) \<Rightarrow> string \<Rightarrow> string option"
  where
  "findExistingJar readdir stat dir =
     (case readdir dir of
        None \<Rightarrow> None
      | Some entries \<Rightarrow>
          let jars = jar_candidates entries
          in if jars = [] then None
             else
               let preferred = filter is_server_jar jars;
                   list = (if preferred \<noteq> [] then preferred else jars)
               in case those (map (\<lambda>n. map_option (Pair n) (stat (path_join dir n))) list) of
                    None \<Rightarrow> None
                  | Some stats \<Rightarrow>
                      (case sort_key (\<lambda>a. - snd a) stats of
                         [] \<Rightarrow> None
                       | a # _ \<Rightarrow> Some (path_join dir (fst a))))"

section \<open>The start route\<close>

text \<open>
  The JSON body, a field being \<^const>\<open>None\<close> when absent. \<open>port\<close> is \<open>PortInt n\<close> for a
  value that \<^verbatim>\<open>Number.isInteger\<close> accepts and \<open>PortOther\<close> for any other value.
\<close>

datatype port_value = PortInt int | PortOther

record body =
  worldName :: "string option"
  memory :: "string option"
  serverJar :: "string option"
  jarDir :: "string option"
  port :: "port_value option"

text \<open>
  What the route finds outside its own state: the two directories derived from
  \<^verbatim>\<open>process.cwd()\<close>, directory listings and modification times, the outcome of the download
  from the release manifest (\<open>Downloaded v\<close> with the manifest's latest release \<open>v\<close>, or
  an exception at any hop), the operating system's answer to \<^verbatim>\<open>listen\<close>, and the outcome
  of \<^verbatim>\<open>spawn\<close>: an exception, a child without pid, or a child with its pid.
\<close>

datatype download_outcome = DownloadThrows | Downloaded string

datatype spawn_outcome = SpawnThrows string | SpawnNoPid | SpawnPid int

record env =
  ROOT_DIR :: string
  PUBLIC_DIR :: string
  WORLDS_DIR :: string
  readdir :: "string \<Rightarrow> (string \<times> bool) list option"
  stat :: "string \<Rightarrow> rat option"
  download :: download_outcome
  listen :: "int \<Rightarrow> listen_event"
  spawn :: spawn_outcome

definition isAbsolute :: "string \<Rightarrow> bool" where
  "isAbsolute p = (case p of [] \<Rightarrow> False | c # _ \<Rightarrow> c = CHR ''/'')"

definition resolveJarDir :: "env \<Rightarrow> string option \<Rightarrow> string" where
  "resolveJarDir e jd =
     (case jd of
        None \<Rightarrow> ROOT_DIR e
      | Some d \<Rightarrow>
          if d = [] \<or> d = ''root'' then ROOT_DIR e
          else if d = ''public'' then PUBLIC_DIR e
          else if isAbsolute d then d else path_join (ROOT_DIR e) d)"

text \<open>\<^verbatim>\<open>downloadLatestServerJar\<close>: the jar path, and the state after \<^verbatim>\<open>fs.writeFile(dest, buf)\<close>.\<close>

definition downloadLatestServerJar :: "env \<Rightarrow> string \<Rightarrow> sys \<Rightarrow> (string \<times> sys) option" where
  "downloadLatestServerJar e targetDir s =
     (case download e of
        DownloadThrows \<Rightarrow> None
      | Downloaded latestId \<Rightarrow>
          let dest = path_join targetDir (''server-'' @ latestId @ ''.jar'')
          in Some (dest, s\<lparr>jar_writes := jar_writes s @ [dest]\<rparr>))"

record start_ok =
  ok_worldName :: string
  ok_pid :: "int option"
  ok_memory :: string
  ok_jar :: string
  ok_jarDir :: string
  ok_requestedPort :: int
  ok_port :: int
  ok_portAutoPicked :: bool

datatype start_response =
    BadRequest string
  | Conflict string
  | ServiceUnavailable string
  | InternalError string
  | Unhandled
  | StartOk start_ok

text \<open>Step 1 of \<^verbatim>\<open>POST\<close>: the pid file is read and the recorded pid probed. The result is
  true when the route answers 409.\<close>

definition already_running :: "string \<Rightarrow> sys \<Rightarrow> bool \<times> sys" where
  "already_running name s =
     (case pid_files s name of
        None \<Rightarrow> (False, s)
      | Some txt \<Rightarrow>
          (case parseInt10 txt of
             None \<Rightarrow> (False, s)
           | Some existing \<Rightarrow> if existing = 0 then (False, s) else start_isAlive existing s))"

text \<open>The jar: the given \<^verbatim>\<open>serverJar\<close>, else the newest existing one, else a download.\<close>

definition resolve_jar :: "env \<Rightarrow> string \<Rightarrow> string \<Rightarrow> sys \<Rightarrow> (string \<times> sys) option" where
  "resolve_jar e sj targetJarDir s =
     (if sj \<noteq> [] then Some (if isAbsolute sj then sj else path_join (ROOT_DIR e) sj, s)
      else case findExistingJar (readdir e) (stat e) targetJarDir of
             Some jarPath \<Rightarrow> Some (jarPath, s)
           | None \<Rightarrow> downloadLatestServerJar e targetJarDir s)"

text \<open>The launch: \<^verbatim>\<open>spawn\<close>, then \<^verbatim>\<open>fs.writeFile(pidFile(name), String(child.pid))\<close>.\<close>

definition launch ::
  "env \<Rightarrow> string \<Rightarrow> string \<Rightarrow> string \<Rightarrow> string \<Rightarrow> int \<Rightarrow> int \<Rightarrow> bool \<Rightarrow> sys \<Rightarrow> start_response \<times> sys"
  where
  "launch e name mem jarPath targetJarDir requestedPort chosenPort autoPicked s =
     (let args = [''-Xmx'' @ mem, ''-Xms'' @ mem, ''-jar'', jarPath, ''nogui'',
                  ''--world'', path_join (WORLDS_DIR e) name, ''--port'', js_String chosenPort]
      in case spawn e of
           SpawnThrows msg \<Rightarrow> (InternalError (''Error: '' @ msg), s)
         | SpawnNoPid \<Rightarrow>
             (StartOk \<lparr>ok_worldName = name, ok_pid = None, ok_memory = mem, ok_jar = jarPath,
                       ok_jarDir = targetJarDir, ok_requestedPort = requestedPort,
                       ok_port = chosenPort, ok_portAutoPicked = autoPicked\<rparr>,
              write_pid name ''undefined'' (s\<lparr>spawn_log := spawn_log s @ [args]\<rparr>))
         | SpawnPid child \<Rightarrow>
             (StartOk \<lparr>ok_worldName = name, ok_pid = Some child, ok_memory = mem, ok_jar = jarPath,
                       ok_jarDir = targetJarDir, ok_requestedPort = requestedPort,
                       ok_port = chosenPort, ok_portAutoPicked = autoPicked\<rparr>,
              write_pid name (js_String child)
                (s\<lparr>spawn_log := spawn_log s @ [args], procs := insert child (procs s)\<rparr>)))"

text \<open>\<^verbatim>\<open>POST\<close> of the start route. The only checks on the world name are the trim and the
  test for the empty string.\<close>

definition start :: "env \<Rightarrow> body \<Rightarrow> sys \<Rightarrow> start_response \<times> sys" where
  "start e b s =
     (let name = trim (case worldName b of None \<Rightarrow> [] | Some w \<Rightarrow> w);
          mem = (case memory b of None \<Rightarrow> ''4G'' | Some m \<Rightarrow> m);
          sj = (case serverJar b of None \<Rightarrow> [] | Some j \<Rightarrow> j);
          requested = (case port b of None \<Rightarrow> PortInt 25565 | Some p \<Rightarrow> p)
      in if name = [] then (BadRequest ''worldName is required'', s)
         else case requested of
                PortOther \<Rightarrow> (BadRequest ''Invalid port number. Must be between 1 and 65535.'', s)
              | PortInt requestedPort \<Rightarrow>
                  if requestedPort < 1 \<or> requestedPort > 65535
                  then (BadRequest ''Invalid port number. Must be between 1 and 65535.'', s)
                  else
                    let s1 = s\<lparr>pid_dir := True\<rparr>;
                        (running, s2) = already_running name s1
                    in if running then (Conflict ''Server already running for this world.'', s2)
                       else
                         let s3 = s2\<lparr>world_dirs := insert name (world_dirs s2)\<rparr>;
                             targetJarDir = resolveJarDir e (jarDir b)
                         in case resolve_jar e sj targetJarDir s3 of
                              None \<Rightarrow> (Unhandled, s3)
                            | Some (jarPath, s4) \<Rightarrow>
                                (case fst (findAvailablePort (listen e) requestedPort) of
                                   None \<Rightarrow> (ServiceUnavailable ''Unable to allocate a free port.'', s4)
                                 | Some (chosenPort, autoPicked) \<Rightarrow>
                                     launch e name mem jarPath targetJarDir requestedPort
                                       chosenPort autoPicked s4))"

section \<open>The launcher script: interval parsing\<close>

text \<open>
  Shell strings are strings of bytes. Two primitives of the shell are not modelled in full
  and are taken as parameters: \<open>arith_ext\<close>, the arithmetic evaluation of a variable whose
  value is neither empty nor a string of digits denoting a number below \<open>2^63\<close>
  (\<^const>\<open>None\<close> when the evaluation fails), and \<open>glob_prefix_ext\<close>, the length of the shortest
  prefix of a string that a pattern with pattern characters matches (0 when none does).
\<close>

record shell =
  arith_ext :: "string \<Rightarrow> int option"
  glob_prefix_ext :: "string \<Rightarrow> string \<Rightarrow> nat"

text \<open>\<^verbatim>\<open>${val%[smhdw]}\<close>: the value without a final unit letter.\<close>

definition strip_unit :: "string \<Rightarrow> string" where
  "strip_unit val = (if val \<noteq> [] \<and> last val \<in> set ''smhdw'' then butlast val else val)"

text \<open>\<^verbatim>\<open>${val#$num}\<close>: the expansion of \<^verbatim>\<open>num\<close> is a pattern; without the pattern characters
  \<^verbatim>\<open>*\<close>, \<^verbatim>\<open>?\<close>, \<^verbatim>\<open>[\<close> and backslash it matches itself only.\<close>

definition glob_special :: "char \<Rightarrow> bool" where
  "glob_special c = (c \<in> set [CHR ''*'', CHR ''?'', CHR ''['', CHR 0x5C])"

definition remove_prefix_pattern :: "shell \<Rightarrow> string \<Rightarrow> string \<Rightarrow> string" where
  "remove_prefix_pattern X pat val =
     (if list_ex glob_special pat then drop (glob_prefix_ext X pat val) val
      else if startsWith val pat then drop (length pat) val
      else val)"

text \<open>
  The value of a variable inside \<^verbatim>\<open>$(( ))\<close>. An empty value is 0. A string of digits is a
  decimal constant, or an octal one after a leading zero, where a digit 8 or 9 is the error
  "value too great for base". Arithmetic is that of 64-bit signed integers.
\<close>

definition all_digits :: "string \<Rightarrow> bool" where
  "all_digits s = (s \<noteq> [] \<and> list_all is_digit s)"

definition octal_value :: "string \<Rightarrow> nat" where
  "octal_value ds = foldl (\<lambda>a c. 8 * a + digit_val c) 0 ds"

definition arith_var :: "shell \<Rightarrow> string \<Rightarrow> int option" where
  "arith_var X v =
     (if v = [] then Some 0
      else if all_digits v then
        (if hd v = CHR ''0'' \<and> tl v \<noteq> [] then
           (if list_ex (\<lambda>c. 8 \<le> digit_val c) (tl v) then None
            else if octal_value (tl v) < 2 ^ 63 then Some (int (octal_value (tl v)))
            else arith_ext X v)
         else if dec_value v < 2 ^ 63 then Some (int (dec_value v))
         else arith_ext X v)
      else arith_ext X v)"

definition wrap64 :: "int \<Rightarrow> int" where
  "wrap64 i = (i + 2 ^ 63) mod 2 ^ 64 - 2 ^ 63"

text \<open>The decimal text of \<^verbatim>\<open>$(( ))\<close>.\<close>

definition sh_decimal :: "int \<Rightarrow> string" where
  "sh_decimal i = js_String i"

text \<open>\<^verbatim>\<open>echo $((num * k))\<close> inside the command substitution: on an arithmetic error nothing
  is printed.\<close>

definition echo_times :: "shell \<Rightarrow> string \<Rightarrow> int \<Rightarrow> string" where
  "echo_times X num k =
     (case arith_var X num of None \<Rightarrow> [] | Some n \<Rightarrow> sh_decimal (wrap64 (n * k)))"

text \<open>\<^verbatim>\<open>parse_interval_to_seconds\<close>: the text the function prints.\<close>

definition parse_interval_to_seconds :: "shell \<Rightarrow> string \<Rightarrow> string" where
  "parse_interval_to_seconds X val =
     (let num = strip_unit val;
          u = remove_prefix_pattern X num val
      in if u = ''s'' then echo_times X num 1
         else if u = ''m'' then echo_times X num 60
         else if u = ''h'' then echo_times X num 3600
         else if u = ''d'' then echo_times X num 86400
         else if u = ''w'' then echo_times X num 604800
         else if all_digits val then val
         else ''0'')"

text \<open>
  The integer operands of \<^verbatim>\<open>[ a -le b ]\<close>: leading white space, an optional sign, digits,
  trailing blanks, within the 64-bit range; anything else is "integer expression expected",
  exit status 2.
\<close>

definition is_c_space :: "char \<Rightarrow> bool" where
  "is_c_space c = (c \<in> set [CHR 0x09, CHR 0x0A, CHR 0x0B, CHR 0x0C, CHR 0x0D, CHR 0x20])"

definition is_blank :: "char \<Rightarrow> bool" where
  "is_blank c = (c = CHR 0x20 \<or> c = CHR 0x09)"

definition legal_number :: "string \<Rightarrow> int option" where
  "legal_number s =
     (let s1 = dropWhile is_c_space s;
          neg = (case s1 of [] \<Rightarrow> False | c # _ \<Rightarrow> c = CHR ''-'');
          s2 = (case s1 of [] \<Rightarrow> [] | c # r \<Rightarrow> if c = CHR ''-'' \<or> c = CHR ''+'' then r else s1);
          ds = takeWhile is_digit s2;
          rest = dropWhile is_blank (dropWhile is_digit s2);
          v = (if neg then - int (dec_value ds) else int (dec_value ds))
      in if ds = [] \<or> rest \<noteq> [] \<or> v < - (2 ^ 63) \<or> 2 ^ 63 \<le> v then None else Some v)"

definition test_le :: "string \<Rightarrow> string \<Rightarrow> nat" where
  "test_le a b =
     (case (legal_number a, legal_number b) of
        (Some x, Some y) \<Rightarrow> if x \<le> y then 0 else 1
      | _ \<Rightarrow> 2)"

definition test_ge :: "string \<Rightarrow> string \<Rightarrow> nat" where
  "test_ge a b =
     (case (legal_number a, legal_number b) of
        (Some x, Some y) \<Rightarrow> if y \<le> x then 0 else 1
      | _ \<Rightarrow> 2)"

text \<open>
  \<^verbatim>\<open>should_backup_now\<close>. The arguments are the values of \<^verbatim>\<open>BACKUP_ON_STOP\<close> and
  \<^verbatim>\<open>BACKUP_INTERVAL\<close>, the output of \<^verbatim>\<open>date +%s\<close> and the timestamp file. The result is
  the exit status (0 is "back up now"), or \<open>Aborts\<close> when the arithmetic expansion of
  \<^verbatim>\<open>now - last\<close> fails in the calling shell, which then abandons the command.
\<close>

datatype file_read = NoFile | Unreadable | Content string

datatype sh_result = Returns nat | Aborts

definition strip_newlines :: "string \<Rightarrow> string" where
  "strip_newlines s = rev (dropWhile (\<lambda>c. c = CHR 0x0A) (rev s))"

definition should_backup_now :: "shell \<Rightarrow> string \<Rightarrow> string \<Rightarrow> nat \<Rightarrow> file_read \<Rightarrow> sh_result" where
  "should_backup_now X BACKUP_ON_STOP BACKUP_INTERVAL now last_backup_file =
     (if BACKUP_ON_STOP \<noteq> ''TRUE'' then Returns 1
      else
        let interval_s = parse_interval_to_seconds X BACKUP_INTERVAL
        in if test_le interval_s ''0'' = 0 then Returns 0
           else case last_backup_file of
                  NoFile \<Rightarrow> Returns 0
                | Unreadable \<Rightarrow>
                    Returns (test_ge (sh_decimal (wrap64 (int now - 0))) interval_s)
                | Content c \<Rightarrow>
                    (case arith_var X (strip_newlines c) of
                       None \<Rightarrow> Aborts
                     | Some lastv \<Rightarrow>
                         Returns (test_ge (sh_decimal (wrap64 (int now - lastv))) interval_s)))"

section \<open>The backup scripts\<close>

text \<open>
  A directory is a list of files, each a name with its modification time and its content;
  names are distinct. What one run of a script observes is a record: whether the world
  directory exists, the outputs of the \<^verbatim>\<open>date\<close> calls, how \<^verbatim>\<open>tar\<close> ends (on failure,
  its exit status and whether it had written the archive file), and the modification time
  and content the written archive gets.
\<close>

type_synonym fsdir = "(string \<times> int \<times> string) list"

definition file_exists :: "string \<Rightarrow> fsdir \<Rightarrow> bool" where
  "file_exists n d = (n \<in> fst ` set d)"

definition write_file :: "string \<Rightarrow> int \<Rightarrow> string \<Rightarrow> fsdir \<Rightarrow> fsdir" where
  "write_file n t c d = (n, t, c) # filter (\<lambda>e. fst e \<noteq> n) d"

definition remove_files :: "string list \<Rightarrow> fsdir \<Rightarrow> fsdir" where
  "remove_files ns d = filter (\<lambda>e. fst e \<notin> set ns) d"

datatype tar_outcome = TarOk | TarFails nat bool

record run =
  world_dir_exists :: bool
  date_day :: string
  date_time :: string
  date_stamp :: string
  date_epoch :: nat
  tar :: tar_outcome
  new_mtime :: int
  new_content :: string

text \<open>\<^verbatim>\<open>do_backup\<close> of the launcher script, on the directory \<^verbatim>\<open>backups\<close>. The script runs
  under \<^verbatim>\<open>set -e\<close>: a failing \<^verbatim>\<open>tar\<close> ends it. Nothing is ever deleted. A function
  ends with \<open>Done\<close> when it returns, with \<open>Exits st\<close> when the script exits with that
  status, and with \<open>Abandoned\<close> when an arithmetic expansion fails in the calling shell:
  the shell then drops the command it was running, takes no backup and goes on with the
  next command of the script (or exits, when the failure is an unbound variable under
  \<^verbatim>\<open>set -u\<close>).\<close>

datatype script_result = Done | Exits nat | Abandoned

definition do_backup :: "string \<Rightarrow> run \<Rightarrow> fsdir \<Rightarrow> script_result \<times> fsdir" where
  "do_backup WORLD_NAME r d =
     (if \<not> world_dir_exists r then (Done, d)
      else
        let archive = WORLD_NAME @ ''-'' @ date_stamp r @ ''.tar.gz''
        in case tar r of
             TarFails st wrote \<Rightarrow>
               (Exits st, if wrote then write_file archive (new_mtime r) (new_content r) d else d)
           | TarOk \<Rightarrow>
               (Done,
                write_file (''.last_backup_'' @ WORLD_NAME) (new_mtime r)
                  (dec_digits (date_epoch r) @ [CHR 0x0A])
                  (write_file archive (new_mtime r) (new_content r) d)))"

definition do_backup_if_needed ::
  "shell \<Rightarrow> string \<Rightarrow> string \<Rightarrow> string \<Rightarrow> run \<Rightarrow> fsdir \<Rightarrow> script_result \<times> fsdir" where
  "do_backup_if_needed X BACKUP_ON_STOP BACKUP_INTERVAL WORLD_NAME r d =
     (let lf = (case map_of d (''.last_backup_'' @ WORLD_NAME) of
                  None \<Rightarrow> NoFile | Some (_, c) \<Rightarrow> Content c)
      in case should_backup_now X BACKUP_ON_STOP BACKUP_INTERVAL (date_epoch r) lf of
           Aborts \<Rightarrow> (Abandoned, d)
         | Returns st \<Rightarrow> if st = 0 then do_backup WORLD_NAME r d else (Done, d))"

definition do_backup_on_stop :: "string \<Rightarrow> string \<Rightarrow> run \<Rightarrow> fsdir \<Rightarrow> script_result \<times> fsdir" where
  "do_backup_on_stop BACKUP_ON_STOP WORLD_NAME r d =
     (if BACKUP_ON_STOP = ''TRUE'' then do_backup WORLD_NAME r d else (Done, d))"

text \<open>
  \<^verbatim>\<open>ls -t\<close> of the names \<^verbatim>\<open>${WORLD_NAME}_*.tar.gz\<close> matches, for a world name without
  blanks and pattern characters that does not begin with a dash: newest first, equal times
  in ascending order of name.
\<close>

definition matches_world_glob :: "string \<Rightarrow> string \<Rightarrow> bool" where
  "matches_world_glob WORLD_NAME n =
     (startsWith n (WORLD_NAME @ ''_'') \<and> endsWith n ''.tar.gz'' \<and>
      length WORLD_NAME + 8 \<le> length n)"

definition world_archives :: "string \<Rightarrow> fsdir \<Rightarrow> fsdir" where
  "world_archives WORLD_NAME d = filter (\<lambda>e. matches_world_glob WORLD_NAME (fst e)) d"

definition ls_key :: "string \<times> int \<times> string \<Rightarrow> int \<times> string" where
  "ls_key e = (- fst (snd e), fst e)"

definition ls_t :: "fsdir \<Rightarrow> string list" where
  "ls_t fs = map fst (sort_key ls_key fs)"

text \<open>
  \<^verbatim>\<open>scripts/backup.sh\<close> on the directory \<^verbatim>\<open>/backups/$WORLD_NAME\<close>: the exit status and the
  directory afterwards. \<^verbatim>\<open>xargs -r rm\<close> removes the listed names as they are when they hold
  no blank, quote or backslash.
\<close>

definition backup_file_name :: "string \<Rightarrow> run \<Rightarrow> fsdir \<Rightarrow> string" where
  "backup_file_name WORLD_NAME r d =
     (if file_exists (WORLD_NAME @ ''_'' @ date_day r @ ''.tar.gz'') d
      then WORLD_NAME @ ''_'' @ date_day r @ ''_'' @ date_time r @ ''.tar.gz''
      else WORLD_NAME @ ''_'' @ date_day r @ ''.tar.gz'')"

definition backup_sh :: "string \<Rightarrow> run \<Rightarrow> fsdir \<Rightarrow> nat \<times> fsdir" where
  "backup_sh WORLD_NAME r d =
     (if WORLD_NAME = [] then (1, d)
      else if \<not> world_dir_exists r then (1, d)
      else
        let BACKUP_FILE = backup_file_name WORLD_NAME r d
        in case tar r of
             TarFails st wrote \<Rightarrow>
               (1, if wrote then write_file BACKUP_FILE (new_mtime r) (new_content r) d else d)
           | TarOk \<Rightarrow>
               let d1 = write_file BACKUP_FILE (new_mtime r) (new_content r) d
               in (0, remove_files (drop 10 (ls_t (world_archives WORLD_NAME d1))) d1))"

text \<open>
  \<^verbatim>\<open>stop_server\<close> of \<^verbatim>\<open>minecraft.sh\<close>, under \<^verbatim>\<open>set -e\<close>. \<open>up\<close> is \<^verbatim>\<open>check_running\<close>,
  \<open>rcon_ok\<close> the outcome of the \<^verbatim>\<open>rcon-cli stop\<close> command, which \<^verbatim>\<open>|| true\<close> discards.
  The result also says whether the containers are still up.
\<close>

definition stop_server :: "bool \<Rightarrow> bool \<Rightarrow> string \<Rightarrow> run \<Rightarrow> fsdir \<Rightarrow> script_result \<times> bool \<times> fsdir" where
  "stop_server up rcon_ok WORLD_NAME r d =
     (if \<not> up then (Done, False, d)
      else
        let (st, d1) = backup_sh WORLD_NAME r d
        in if st \<noteq> 0 then (Exits st, True, d1) else (Done, False, d1))"

section \<open>Statement helpers and example states\<close>

text \<open>The world name the routes work with, and the requests that pass the start route's own
  checks (a non-empty trimmed name and a port that is absent or an integer in 1..65535).\<close>

definition body_name :: "body \<Rightarrow> string" where
  "body_name b = trim (case worldName b of None \<Rightarrow> [] | Some w \<Rightarrow> w)"

definition request_valid :: "body \<Rightarrow> bool" where
  "request_valid b =
     (trim (case worldName b of None \<Rightarrow> [] | Some w \<Rightarrow> w) \<noteq> [] \<and>
      (case port b of None \<Rightarrow> True | Some PortOther \<Rightarrow> False
       | Some (PortInt n) \<Rightarrow> 1 \<le> n \<and> n \<le> 65535))"

text \<open>A registry entry is stale when the recorded text is no number or names a process that
  \<^verbatim>\<open>process.kill(pid, 0)\<close> does not reach.\<close>

definition stale :: "sys \<Rightarrow> string \<Rightarrow> bool" where
  "stale s name =
     (case pid_files s name of
        None \<Rightarrow> False
      | Some ptext \<Rightarrow> (case parseInt10 ptext of None \<Rightarrow> True | Some p \<Rightarrow> p \<notin> procs s))"

definition s_empty :: sys where
  "s_empty = \<lparr>pid_dir = False, pid_files = Map.empty, world_dirs = {}, jar_writes = [],
              procs = {}, kill_log = [], spawn_log = [], archives = []\<rparr>"

definition s_alpha_live :: sys where
  "s_alpha_live = \<lparr>pid_dir = True, pid_files = [''Alpha'' \<mapsto> ''4242''], world_dirs = {''Alpha''},
              jar_writes = [], procs = {4242}, kill_log = [], spawn_log = [], archives = []\<rparr>"

definition s_alpha_stale :: sys where
  "s_alpha_stale = \<lparr>pid_dir = True, pid_files = [''Alpha'' \<mapsto> ''999''], world_dirs = {''Alpha''},
              jar_writes = [], procs = {}, kill_log = [], spawn_log = [], archives = []\<rparr>"

definition env_example :: env where
  "env_example = \<lparr>ROOT_DIR = ''/srv/mc'', PUBLIC_DIR = ''/srv/mc/gui/public'',
       WORLDS_DIR = ''/srv/mc/worlds'',
       readdir = (\<lambda>d. if d = ''/srv/mc'' then Some [(''server.jar'', True)] else None),
       stat = (\<lambda>p. if p = ''/srv/mc/server.jar'' then Some 1 else None),
       download = DownloadThrows,
       listen = (\<lambda>p. if p = 0 then Listening (AddressInfo 49152) else Listening (AddressInfo p)),
       spawn = SpawnPid 4242\<rparr>"

definition body_of :: "string \<Rightarrow> body" where
  "body_of w = \<lparr>worldName = Some w, memory = Some ''2G'', serverJar = None, jarDir = None,
                port = Some (PortInt 25565)\<rparr>"

text \<open>The pool \<^verbatim>\<open>findExistingJar\<close> picks from: the names matching \<^verbatim>\<open>server*.jar\<close>
  when there are any, else all candidates.\<close>

definition jar_pool :: "string list \<Rightarrow> string list" where
  "jar_pool jars = (if filter is_server_jar jars \<noteq> [] then filter is_server_jar jars else jars)"

text \<open>The marker of a backup or old jar, as the launcher script's
  \<^verbatim>\<open>grep -vE '(\.old|\.bak)\.jar$'\<close> reads it.\<close>

definition has_old_marker :: "string \<Rightarrow> bool" where
  "has_old_marker n = (endsWith n ''.old.jar'' \<or> endsWith n ''.bak.jar'')"

definition readdir_old_only :: "string \<Rightarrow> (string \<times> bool) list option" where
  "readdir_old_only d = (if d = ''/srv/mc'' then Some [(''server.old.jar'', True)] else None)"

definition readdir_tie :: "string \<Rightarrow> (string \<times> bool) list option" where
  "readdir_tie d = (if d = ''/srv/mc'' then Some [(''a.jar'', True), (''b.jar'', True)] else None)"

definition readdir_three :: "string \<Rightarrow> (string \<times> bool) list option" where
  "readdir_three d =
     (if d = ''/srv/mc''
      then Some [(''paper.jar'', True), (''server-1.20.jar'', True), (''Server-1.21.JAR'', True),
                 (''notes.txt'', True), (''server-dir.jar'', False)]
      else None)"

definition stat_same :: "string \<Rightarrow> rat option" where
  "stat_same p = Some 5"

definition stat_three :: "string \<Rightarrow> rat option" where
  "stat_three p =
     (if p = ''/srv/mc/paper.jar'' then Some 900
      else if p = ''/srv/mc/server-1.20.jar'' then Some 100
      else if p = ''/srv/mc/Server-1.21.JAR'' then Some 200
      else None)"

definition os_busy :: "int \<Rightarrow> listen_event" where
  "os_busy p =
     (if p = 25565 then ListenError
      else if p = 0 then Listening (AddressInfo 49152)
      else Listening (AddressInfo p))"

section \<open>Example inputs of the scripts\<close>

text \<open>A shell whose unmodelled primitives fail; the examples never reach them.\<close>

definition X0 :: shell where
  "X0 = \<lparr>arith_ext = (\<lambda>v. None), glob_prefix_ext = (\<lambda>p v. 0)\<rparr>"


text \<open>Two runs within the same second, 2024-01-01 12:00:00 UTC, and the directories they
  meet: one with a backup of that morning, one with ten older archives of the launcher.\<close>

definition run_noon :: "string \<Rightarrow> run" where
  "run_noon c = \<lparr>world_dir_exists = True, date_day = ''2024-01-01'', date_time = ''12-00-00'',
       date_stamp = ''20240101-120000'', date_epoch = 1704110400, tar = TarOk,
       new_mtime = 1704110400, new_content = c\<rparr>"

definition d_morning :: fsdir where
  "d_morning = [(''Alpha_2024-01-01.tar.gz'', 1704096000, ''snapshot-0'')]"



section \<open>Lemmas: strings and numbers\<close>

lemma world_char_not_space: "c \<in> set world_chars \<Longrightarrow> \<not> is_js_space c"
  by (auto simp: world_chars_def is_js_space_def)

lemma trim_no_space:
  assumes "\<forall>c\<in>set w. \<not> is_js_space c"
  shows "trim w = w"
proof (cases "w = []")
  case True
  then show ?thesis by (simp add: trim_def)
next
  case False
  then have h: "hd w \<in> set w" and l: "last w \<in> set w" by simp_all
  have "dropWhile is_js_space w = w"
    using assms h False by (simp add: dropWhile_eq_self_iff)
  moreover have "dropWhile is_js_space (rev w) = rev w"
    using assms l False by (simp add: dropWhile_eq_self_iff hd_rev)
  ultimately show ?thesis by (simp add: trim_def)
qed

lemma trim_valid: "validateWorldName w \<Longrightarrow> trim w = w"
  by (rule trim_no_space) (auto simp: validateWorldName_def list_all_iff dest: world_char_not_space)

lemma digit_char_props:
  assumes "d < 10"
  shows "is_digit (digit_char d)" and "digit_val (digit_char d) = d"
  using assms by (simp_all add: is_digit_def digit_val_def digit_char_def)

lemma dec_digits_all: "list_all is_digit (dec_digits n)"
  by (induction n rule: dec_digits.induct) (subst dec_digits.simps, simp add: digit_char_props)

lemma dec_digits_nonempty: "dec_digits n \<noteq> []"
  by (subst dec_digits.simps) simp

lemma dec_value_snoc: "dec_value (ds @ [c]) = 10 * dec_value ds + digit_val c"
  by (simp add: dec_value_def)

lemma dec_value_digits: "dec_value (dec_digits n) = n"
proof (induction n rule: dec_digits.induct)
  case (1 n)
  show ?case
  proof (cases "n < 10")
    case True
    then show ?thesis by (subst dec_digits.simps) (simp add: dec_value_def digit_char_props)
  next
    case False
    with 1 show ?thesis
      by (subst dec_digits.simps) (simp add: dec_value_snoc digit_char_props)
  qed
qed

lemma digit_not_space: "is_digit c \<Longrightarrow> \<not> is_js_space c \<and> c \<noteq> CHR ''-'' \<and> c \<noteq> CHR ''+''"
  by (auto simp: is_digit_def is_js_space_def)

lemma parseInt10_digits:
  assumes "ds \<noteq> []" "list_all is_digit ds"
  shows "parseInt10 ds = Some (int (dec_value ds))"
proof -
  from assms obtain c r where ds: "ds = c # r" by (cases ds) auto
  with assms have c: "is_digit c" by simp
  have tw: "takeWhile is_digit ds = ds"
    using assms(2) by (simp add: takeWhile_eq_all_conv list_all_iff)
  have dw: "dropWhile is_js_space ds = ds"
    using c ds digit_not_space by simp
  have twr: "takeWhile is_digit r = r"
    using assms(2) ds by (simp add: takeWhile_eq_all_conv list_all_iff)
  show ?thesis
    unfolding parseInt10_def dw Let_def
    using c digit_not_space[OF c] by (simp add: ds twr)
qed

lemma parseInt10_js_String: "0 \<le> p \<Longrightarrow> parseInt10 (js_String p) = Some p"
  by (simp add: js_String_def parseInt10_digits dec_digits_all dec_digits_nonempty dec_value_digits)


lemma hd_sort_key:
  "sort_key f xs = a # as \<Longrightarrow>
     \<exists>i<length xs. xs ! i = a \<and> (\<forall>j<i. f a < f (xs ! j)) \<and> (\<forall>x\<in>set xs. f a \<le> f x)"
proof (induction xs arbitrary: a as)
  case Nil
  then show ?case by simp
next
  case (Cons x xs)
  show ?case
  proof (cases "sort_key f xs")
    case Nil
    then have "xs = []" by (metis length_sort list.size(3) length_0_conv)
    with Cons.prems show ?thesis by auto
  next
    case (Cons b bs)
    from Cons.IH[OF this] obtain i where i: "i < length xs" "xs ! i = b"
      "\<forall>j<i. f b < f (xs ! j)" "\<forall>y\<in>set xs. f b \<le> f y" by blast
    show ?thesis
    proof (cases "f x \<le> f b")
      case True
      with Cons.prems Cons have "a = x" by simp
      moreover have "\<forall>y\<in>set (x # xs). f x \<le> f y" using True i(4) by auto
      ultimately show ?thesis by (intro exI[of _ 0]) simp
    next
      case False
      with Cons.prems Cons have a: "a = b" by simp
      have "\<forall>j<Suc i. f b < f ((x # xs) ! j)"
        using False i(3) by (auto simp: nth_Cons split: nat.splits)
      moreover have "\<forall>y\<in>set (x # xs). f b \<le> f y" using False i(4) by auto
      ultimately show ?thesis using i(1,2) a by (intro exI[of _ "Suc i"]) simp
    qed
  qed
qed

section \<open>Lemmas: the routes\<close>

lemma already_running_state:
  "already_running name s = (r, s') \<Longrightarrow>
     pid_files s' = pid_files s \<and> procs s' = procs s \<and> spawn_log s' = spawn_log s \<and>
     world_dirs s' = world_dirs s \<and> pid_dir s' = pid_dir s \<and> archives s' = archives s \<and> jar_writes s' = jar_writes s"
  by (auto simp: already_running_def start_isAlive_def log_kill_def split: option.splits if_splits)

lemma already_running_live:
  "pid_files s name = Some ptext \<Longrightarrow> parseInt10 ptext = Some p \<Longrightarrow> p \<noteq> 0 \<Longrightarrow> p \<in> procs s \<Longrightarrow>
     already_running name s = (True, log_kill p Sig0 s)"
  by (simp add: already_running_def start_isAlive_def)

lemma already_running_stale:
  "pid_files s name = Some ptext \<Longrightarrow> (case parseInt10 ptext of None \<Rightarrow> True | Some p \<Rightarrow> p \<notin> procs s) \<Longrightarrow>
     fst (already_running name s) = False"
  by (simp add: already_running_def start_isAlive_def split: option.splits)

lemma start_conflict:
  assumes "request_valid b" "pid_files s (body_name b) = Some ptext" "parseInt10 ptext = Some p" "p \<noteq> 0" "p \<in> procs s"
  shows "start e b s = (Conflict ''Server already running for this world.'', log_kill p Sig0 (s\<lparr>pid_dir := True\<rparr>))"
proof -
  have ar: "already_running (body_name b) (s\<lparr>pid_dir := True\<rparr>) = (True, log_kill p Sig0 (s\<lparr>pid_dir := True\<rparr>))"
    using assms by (intro already_running_live[where ptext=ptext]) simp_all
  show ?thesis
    using assms(1) ar
    by (auto simp: start_def request_valid_def body_name_def Let_def split: option.splits port_value.splits)
qed

lemma resolve_jar_state:
  "resolve_jar e sj d s = Some (j, s') \<Longrightarrow>
     pid_files s' = pid_files s \<and> procs s' = procs s \<and> spawn_log s' = spawn_log s \<and>
     world_dirs s' = world_dirs s \<and> pid_dir s' = pid_dir s \<and> archives s' = archives s \<and> kill_log s' = kill_log s"
  by (auto simp: resolve_jar_def downloadLatestServerJar_def Let_def split: option.splits if_splits download_outcome.splits)

lemma launch_ok:
  "launch e name mem jp tjd rp cp ap s = (StartOk r, s') \<Longrightarrow>
     pid_files s' = (pid_files s)(name \<mapsto> (case ok_pid r of None \<Rightarrow> ''undefined'' | Some c \<Rightarrow> js_String c)) \<and>
     (case ok_pid r of None \<Rightarrow> procs s' = procs s | Some c \<Rightarrow> procs s' = insert c (procs s)) \<and>
     length (spawn_log s') = Suc (length (spawn_log s)) \<and> pid_dir s' = pid_dir s \<and> archives s' = archives s
     \<and> world_dirs s' = world_dirs s"
  by (auto simp: launch_def Let_def write_pid_def split: spawn_outcome.splits)

lemma launch_not_ok:
  "launch e name mem jp tjd rp cp ap s = (resp, s') \<Longrightarrow> \<forall>r. resp \<noteq> StartOk r \<Longrightarrow> s' = s"
  by (auto simp: launch_def Let_def write_pid_def split: spawn_outcome.splits)

lemma start_ok_state:
  assumes "start e b s = (StartOk r, s')"
  shows "request_valid b \<and>
     pid_files s' = (pid_files s)(body_name b \<mapsto> (case ok_pid r of None \<Rightarrow> ''undefined'' | Some c \<Rightarrow> js_String c)) \<and>
     (case ok_pid r of None \<Rightarrow> procs s' = procs s | Some c \<Rightarrow> procs s' = insert c (procs s)) \<and>
     length (spawn_log s') = Suc (length (spawn_log s)) \<and> pid_dir s' \<and> archives s' = archives s"
proof -
  obtain run s2 where ar: "already_running (body_name b) (s\<lparr>pid_dir := True\<rparr>) = (run, s2)"
    by (cases "already_running (body_name b) (s\<lparr>pid_dir := True\<rparr>)")
  note st2 = already_running_state[OF ar]
  from assms ar show ?thesis
    apply (simp add: start_def body_name_def[symmetric] Let_def request_valid_def
        split: option.splits port_value.splits if_splits prod.splits)
    apply (auto dest!: launch_ok resolve_jar_state simp: st2 body_name_def)
    done
qed

lemma isAlive_stale:
  "pid_files s name = Some ptext \<Longrightarrow> stale s name \<Longrightarrow> fst (isAlive (parseInt10 ptext) s) = False"
  by (auto simp: stale_def isAlive_def split: option.splits)

lemma isAlive_pid_files: "pid_files (snd (isAlive p s)) = pid_files s"
  by (simp add: isAlive_def log_kill_def split: option.splits)

lemma launch_not_ok_snd:
  "\<forall>r. fst (launch e name mem jp tjd rp cp ap s) \<noteq> StartOk r \<Longrightarrow>
     snd (launch e name mem jp tjd rp cp ap s) = s"
  by (auto simp: launch_def Let_def write_pid_def split: spawn_outcome.splits)

section \<open>Lemmas: evaluation of the examples\<close>

lemma trim_Alpha: "trim ''Alpha'' = ''Alpha''"
  by (simp add: trim_def is_js_space_def)

lemma valid_Alpha: "validateWorldName ''Alpha''"
  by (simp add: validateWorldName_def world_chars_def)

lemma parse_4242: "parseInt10 ''4242'' = Some 4242"
  by (simp add: parseInt10_def is_js_space_def is_digit_def dec_value_def digit_val_def)

lemma digit_char_simps:
  "digit_char 0 = CHR ''0''" "digit_char 1 = CHR ''1''" "digit_char (Suc 0) = CHR ''1''"
  "digit_char 2 = CHR ''2''"
  "digit_char 3 = CHR ''3''" "digit_char 4 = CHR ''4''" "digit_char 5 = CHR ''5''"
  "digit_char 6 = CHR ''6''" "digit_char 7 = CHR ''7''" "digit_char 8 = CHR ''8''"
  "digit_char 9 = CHR ''9''"
  by (simp_all add: digit_char_def char_of_def bit_simps)

lemma js_String_4242: "js_String 4242 = ''4242''"
  by (simp add: js_String_def dec_digits.simps digit_char_simps)

lemma env_example_sel:
  "ROOT_DIR env_example = ''/srv/mc''"
  "WORLDS_DIR env_example = ''/srv/mc/worlds''"
  "readdir env_example ''/srv/mc'' = Some [(''server.jar'', True)]"
  "stat env_example ''/srv/mc/server.jar'' = Some 1"
  "listen env_example 25565 = Listening (AddressInfo 25565)"
  "spawn env_example = SpawnPid 4242"
  by (simp_all add: env_example_def)

lemma server_jar_lower: "endsWith (toLowerCase ''server.jar'') ''.jar''"
  by (simp add: endsWith_def toLowerCase_def toLowerCase_char_def)

lemma server_jar_primary: "is_server_jar ''server.jar''"
  by (simp add: is_server_jar_def toLowerCase_def toLowerCase_char_def)

lemma find_jar_example:
  "findExistingJar (readdir env_example) (stat env_example) ''/srv/mc'' = Some ''/srv/mc/server.jar''"
proof -
  have c: "jar_candidates [(''server.jar'', True)] = [''server.jar'']"
    by (simp add: jar_candidates_def server_jar_lower)
  have p: "path_join ''/srv/mc'' ''server.jar'' = ''/srv/mc/server.jar''"
    by (simp add: path_join_def)
  show ?thesis
    by (simp add: findExistingJar_def env_example_sel c p server_jar_primary)
qed

lemma js_String_25565: "js_String 25565 = ''25565''"
  by (simp add: js_String_def dec_digits.simps digit_char_simps)

lemma parse_999: "parseInt10 ''999'' = Some 999"
  by (simp add: parseInt10_def is_js_space_def is_digit_def dec_value_def digit_val_def)

lemma start_example_run:
  assumes "already_running w (s\<lparr>pid_dir := True\<rparr>) = (False, s2)" "trim w = w" "w \<noteq> []"
  shows "start env_example (body_of w) s =
     (StartOk \<lparr>ok_worldName = w, ok_pid = Some 4242, ok_memory = ''2G'',
              ok_jar = ''/srv/mc/server.jar'', ok_jarDir = ''/srv/mc'', ok_requestedPort = 25565,
              ok_port = 25565, ok_portAutoPicked = False\<rparr>,
      write_pid w ''4242''
        (s2\<lparr>world_dirs := insert w (world_dirs s2),
            spawn_log := spawn_log s2 @
              [[''-Xmx2G'', ''-Xms2G'', ''-jar'', ''/srv/mc/server.jar'', ''nogui'', ''--world'',
                ''/srv/mc/worlds/'' @ w, ''--port'', ''25565'']],
            procs := insert 4242 (procs s2)\<rparr>))"
proof -
  have rj: "resolve_jar env_example [] ''/srv/mc'' t = Some (''/srv/mc/server.jar'', t)" for t
    by (simp add: resolve_jar_def find_jar_example)
  have fp: "findAvailablePort (listen env_example) 25565 = (Some (25565, False), [25565])"
    by (simp add: findAvailablePort_def checkPortAvailable_def env_example_sel)
  show ?thesis
    using assms
    by (simp add: start_def body_of_def resolveJarDir_def env_example_sel rj fp
        launch_def Let_def js_String_4242 js_String_25565 path_join_def)
qed

lemma start_example:
  "fst (start env_example (body_of ''Alpha'') s_empty) =
     StartOk \<lparr>ok_worldName = ''Alpha'', ok_pid = Some 4242, ok_memory = ''2G'',
              ok_jar = ''/srv/mc/server.jar'', ok_jarDir = ''/srv/mc'', ok_requestedPort = 25565,
              ok_port = 25565, ok_portAutoPicked = False\<rparr>"
proof -
  have ar: "already_running ''Alpha'' (s_empty\<lparr>pid_dir := True\<rparr>) = (False, s_empty\<lparr>pid_dir := True\<rparr>)"
    by (simp add: already_running_def s_empty_def)
  show ?thesis
    by (simp add: start_example_run[OF ar trim_Alpha])
qed

lemma those_stat_Some:
  "those (map (\<lambda>n. map_option (Pair n) (g n)) xs) = Some ys \<longleftrightarrow>
     (\<forall>n\<in>set xs. g n \<noteq> None) \<and> ys = map (\<lambda>n. (n, the (g n))) xs"
  by (induction xs arbitrary: ys) (auto split: option.splits)

lemma those_stat_None:
  "those (map (\<lambda>n. map_option (Pair n) (g n)) xs) = None \<longleftrightarrow> (\<exists>n\<in>set xs. g n = None)"
  by (induction xs) (auto split: option.splits)

section \<open>Lemmas: the artifact resolver\<close>

lemma jar_candidates_iff:
  "n \<in> set (jar_candidates entries) \<longleftrightarrow> (n, True) \<in> set entries \<and> endsWith (toLowerCase n) ''.jar''"
  by (auto simp: jar_candidates_def image_iff)

lemma jar_pool_set:
  "set (jar_pool jars) =
     (if \<exists>m\<in>set jars. is_server_jar m then {m \<in> set jars. is_server_jar m} else set jars)"
  by (auto simp: jar_pool_def filter_empty_conv)

lemma jar_pool_nonempty: "jars \<noteq> [] \<Longrightarrow> jar_pool jars \<noteq> []"
  by (simp add: jar_pool_def)

lemma findExistingJar_unfold:
  assumes "rdir dir = Some entries"
  shows "findExistingJar rdir mt dir =
     (if jar_candidates entries = [] then None
      else case those (map (\<lambda>n. map_option (Pair n) (mt (path_join dir n)))
                  (jar_pool (jar_candidates entries))) of
             None \<Rightarrow> None
           | Some stats \<Rightarrow>
               (case sort_key (\<lambda>a. - snd a) stats of [] \<Rightarrow> None
                | a # _ \<Rightarrow> Some (path_join dir (fst a))))"
  using assms by (simp add: findExistingJar_def jar_pool_def Let_def)

lemma lower_jar_names:
  "endsWith (toLowerCase ''server.old.jar'') ''.jar''"
  "endsWith (toLowerCase ''a.jar'') ''.jar''"
  "endsWith (toLowerCase ''b.jar'') ''.jar''"
  "endsWith (toLowerCase ''paper.jar'') ''.jar''"
  "endsWith (toLowerCase ''server-1.20.jar'') ''.jar''"
  "endsWith (toLowerCase ''Server-1.21.JAR'') ''.jar''"
  "\<not> endsWith (toLowerCase ''notes.txt'') ''.jar''"
  by (simp_all add: endsWith_def toLowerCase_def toLowerCase_char_def char_of_def bit_simps)

lemma primary_jar_names:
  "is_server_jar ''server.old.jar''"
  "\<not> is_server_jar ''a.jar''"
  "\<not> is_server_jar ''b.jar''"
  "\<not> is_server_jar ''paper.jar''"
  "is_server_jar ''server-1.20.jar''"
  "is_server_jar ''Server-1.21.JAR''"
  by (simp_all add: is_server_jar_def toLowerCase_def toLowerCase_char_def char_of_def bit_simps)

lemma candidates_examples:
  "jar_candidates [(''server.old.jar'', True)] = [''server.old.jar'']"
  "jar_candidates [(''a.jar'', True), (''b.jar'', True)] = [''a.jar'', ''b.jar'']"
  "jar_candidates [(''paper.jar'', True), (''server-1.20.jar'', True), (''Server-1.21.JAR'', True),
                   (''notes.txt'', True), (''server-dir.jar'', False)] =
     [''paper.jar'', ''server-1.20.jar'', ''Server-1.21.JAR'']"
  by (simp_all add: jar_candidates_def lower_jar_names)

lemma find_jar_old_only:
  "findExistingJar readdir_old_only stat_same ''/srv/mc'' = Some ''/srv/mc/server.old.jar''"
  by (simp add: findExistingJar_def readdir_old_only_def stat_same_def candidates_examples
      primary_jar_names path_join_def)

lemma find_jar_tie:
  "findExistingJar readdir_tie stat_same ''/srv/mc'' = Some ''/srv/mc/a.jar''"
  by (simp add: findExistingJar_def readdir_tie_def stat_same_def candidates_examples
      primary_jar_names path_join_def)

lemma find_jar_three:
  "findExistingJar readdir_three stat_three ''/srv/mc'' = Some ''/srv/mc/Server-1.21.JAR''"
  by (simp add: findExistingJar_def readdir_three_def stat_three_def candidates_examples
      primary_jar_names path_join_def)

section \<open>Lemmas: the interval parser\<close>

lemma wrap64_id: "- (2 ^ 63) \<le> i \<Longrightarrow> i < 2 ^ 63 \<Longrightarrow> wrap64 i = i"
  by (simp add: wrap64_def)

lemma digit_not_c_space: "is_digit c \<Longrightarrow> \<not> is_c_space c \<and> \<not> is_blank c \<and> c \<noteq> CHR ''-'' \<and> c \<noteq> CHR ''+''"
  by (auto simp: is_digit_def is_c_space_def is_blank_def)

lemma legal_number_digits:
  assumes "ds \<noteq> []" "list_all is_digit ds" "int (dec_value ds) < 2 ^ 63"
  shows "legal_number ds = Some (int (dec_value ds))"
proof -
  from assms obtain c r where ds: "ds = c # r" by (cases ds) auto
  with assms have c: "is_digit c" by simp
  have tw: "takeWhile is_digit ds = ds"
    using assms(2) by (simp add: takeWhile_eq_all_conv list_all_iff)
  have dwd: "dropWhile is_digit ds = []"
    using assms(2) by (simp add: list_all_iff)
  have dw: "dropWhile is_c_space ds = ds"
    using c ds digit_not_c_space by simp
  have s2: "(case ds of [] \<Rightarrow> [] | c # r \<Rightarrow> if c = CHR ''-'' \<or> c = CHR ''+'' then r else ds) = ds"
    using c digit_not_c_space[OF c] by (simp add: ds)
  have ng: "(case ds of [] \<Rightarrow> False | c # _ \<Rightarrow> c = CHR ''-'') = False"
    using c digit_not_c_space[OF c] by (simp add: ds)
  show ?thesis
    unfolding legal_number_def dw Let_def s2 ng tw dwd
    using assms(1,3) by simp
qed

lemma legal_number_neg_digits:
  assumes "ds \<noteq> []" "list_all is_digit ds" "int (dec_value ds) \<le> 2 ^ 63"
  shows "legal_number (CHR ''-'' # ds) = Some (- int (dec_value ds))"
proof -
  have tw: "takeWhile is_digit ds = ds"
    using assms(2) by (simp add: takeWhile_eq_all_conv list_all_iff)
  have dwd: "dropWhile is_digit ds = []"
    using assms(2) by (simp add: list_all_iff)
  have dw: "dropWhile is_c_space (CHR ''-'' # ds) = CHR ''-'' # ds"
    by (simp add: is_c_space_def)
  show ?thesis
    unfolding legal_number_def dw Let_def
    using assms(1,3) by (simp add: tw dwd)
qed

lemma legal_number_decimal:
  "- (2 ^ 63) \<le> x \<Longrightarrow> x < 2 ^ 63 \<Longrightarrow> legal_number (sh_decimal x) = Some x"
  by (auto simp: sh_decimal_def js_String_def legal_number_digits legal_number_neg_digits
      dec_digits_all dec_digits_nonempty dec_value_digits)

lemma legal_number_0: "legal_number ''0'' = Some 0"
  by (simp add: legal_number_def is_c_space_def is_digit_def dec_value_def digit_val_def)

lemma unit_of_unitless:
  assumes "val = [] \<or> last val \<notin> set ''smhdw''"
  shows "remove_prefix_pattern X (strip_unit val) val \<notin> {''s'', ''m'', ''h'', ''d'', ''w''}"
proof -
  have su: "strip_unit val = val" using assms by (auto simp: strip_unit_def)
  have suffix: "\<exists>k. remove_prefix_pattern X val val = drop k val"
    by (auto simp: remove_prefix_pattern_def intro: exI[of _ 0])
  then obtain k where k: "remove_prefix_pattern X val val = drop k val" by blast
  have "drop k val \<noteq> [c]" if "c \<in> set ''smhdw''" for c
  proof
    assume e: "drop k val = [c]"
    then have "k < length val" by (cases "k < length val") auto
    then have "last (drop k val) = last val" by (rule last_drop)
    with e have "last val = c" by simp
    moreover from e have "val \<noteq> []" by auto
    ultimately show False using assms that by auto
  qed
  then show ?thesis unfolding su k by auto
qed

lemma parse_unitless:
  assumes "val = [] \<or> last val \<notin> set ''smhdw''" "\<not> all_digits val"
  shows "parse_interval_to_seconds X val = ''0''"
  using unit_of_unitless[OF assms(1), of X] assms(2)
  by (simp add: parse_interval_to_seconds_def Let_def)

lemma parse_24h: "parse_interval_to_seconds X ''24h'' = ''86400''"
proof -
  have su: "strip_unit ''24h'' = ''24''" by (simp add: strip_unit_def)
  have u: "remove_prefix_pattern X ''24'' ''24h'' = ''h''"
    by (simp add: remove_prefix_pattern_def glob_special_def startsWith_def)
  have av: "arith_var X ''24'' = Some 24"
    by (simp add: arith_var_def all_digits_def is_digit_def dec_value_def digit_val_def)
  have w: "wrap64 86400 = 86400" by (simp add: wrap64_def)
  have sd: "sh_decimal 86400 = ''86400''"
    by (simp add: sh_decimal_def js_String_def dec_digits.simps digit_char_simps)
  show ?thesis
    by (simp add: parse_interval_to_seconds_def su u echo_times_def av w sd)
qed

lemma legal_86400: "legal_number ''86400'' = Some 86400"
  by (simp add: legal_number_def is_c_space_def is_blank_def is_digit_def dec_value_def digit_val_def)

lemma stamp_value: "arith_var X (strip_newlines ''1704110400\<newline>'') = Some 1704110400"
  by (simp add: strip_newlines_def arith_var_def all_digits_def is_digit_def dec_value_def digit_val_def)

lemma parse_0h: "parse_interval_to_seconds X ''0h'' = ''0''"
proof -
  have su: "strip_unit ''0h'' = ''0''" by (simp add: strip_unit_def)
  have u: "remove_prefix_pattern X ''0'' ''0h'' = ''h''"
    by (simp add: remove_prefix_pattern_def glob_special_def startsWith_def)
  have av: "arith_var X ''0'' = Some 0"
    by (simp add: arith_var_def all_digits_def is_digit_def dec_value_def digit_val_def)
  have w: "wrap64 0 = 0" by (simp add: wrap64_def)
  have sd: "sh_decimal 0 = ''0''"
    by (simp add: sh_decimal_def js_String_def dec_digits.simps digit_char_simps)
  show ?thesis
    by (simp add: parse_interval_to_seconds_def su u echo_times_def av w sd)
qed

lemma parse_08h: "parse_interval_to_seconds X ''08h'' = []"
proof -
  have su: "strip_unit ''08h'' = ''08''" by (simp add: strip_unit_def)
  have u: "remove_prefix_pattern X ''08'' ''08h'' = ''h''"
    by (simp add: remove_prefix_pattern_def glob_special_def startsWith_def)
  have av: "arith_var X ''08'' = None"
    by (simp add: arith_var_def all_digits_def is_digit_def digit_val_def)
  show ?thesis
    by (simp add: parse_interval_to_seconds_def su u echo_times_def av)
qed

text \<open>
  What \<^verbatim>\<open>should_backup_now\<close> does where its parser yields a number or takes its
  fallback: "not due" with the flag off; with the flag \<^verbatim>\<open>TRUE\<close>, "due" for a parsed
  interval not above zero, for a string without unit letter that is not a number, and
  without a timestamp file; and for a parsed interval above zero with a timestamp, "due"
  exactly when the elapsed seconds reach the interval.
\<close>

lemma should_backup_now_gated:
  "(flag \<noteq> ''TRUE'' \<longrightarrow> should_backup_now X flag iv now lf = Returns 1) \<and>
   (legal_number (parse_interval_to_seconds X iv) = Some n \<and> n \<le> 0 \<longrightarrow>
      should_backup_now X ''TRUE'' iv now lf = Returns 0) \<and>
   ((iv = [] \<or> last iv \<notin> set ''smhdw'') \<and> \<not> all_digits iv \<longrightarrow>
      should_backup_now X ''TRUE'' iv now lf = Returns 0) \<and>
   should_backup_now X ''TRUE'' iv now NoFile = Returns 0 \<and>
   (legal_number (parse_interval_to_seconds X iv) = Some n \<and> 0 < n \<and>
    arith_var X (strip_newlines c) = Some l \<and> 0 \<le> l \<and> l < 2 ^ 63 \<and> int now < 2 ^ 63 \<longrightarrow>
      should_backup_now X ''TRUE'' iv now (Content c) =
        Returns (if n \<le> int now - l then 0 else 1)) \<and>
   parse_interval_to_seconds X ''24h'' = ''86400''"
proof (intro conjI impI)
  show "flag \<noteq> ''TRUE'' \<Longrightarrow> should_backup_now X flag iv now lf = Returns 1"
    by (simp add: should_backup_now_def)
  show "legal_number (parse_interval_to_seconds X iv) = Some n \<and> n \<le> 0 \<Longrightarrow>
      should_backup_now X ''TRUE'' iv now lf = Returns 0"
    by (simp add: should_backup_now_def test_le_def legal_number_0)
  show "(iv = [] \<or> last iv \<notin> set ''smhdw'') \<and> \<not> all_digits iv \<Longrightarrow>
      should_backup_now X ''TRUE'' iv now lf = Returns 0"
    using parse_unitless[of iv X] by (simp add: should_backup_now_def test_le_def legal_number_0)
  show "should_backup_now X ''TRUE'' iv now NoFile = Returns 0"
    by (simp add: should_backup_now_def Let_def)
  show "parse_interval_to_seconds X ''24h'' = ''86400''" by (rule parse_24h)
  assume a: "legal_number (parse_interval_to_seconds X iv) = Some n \<and> 0 < n \<and>
    arith_var X (strip_newlines c) = Some l \<and> 0 \<le> l \<and> l < 2 ^ 63 \<and> int now < 2 ^ 63"
  then have rng: "- (2 ^ 63) \<le> int now - l" "int now - l < 2 ^ 63" by linarith+
  have w: "wrap64 (int now - l) = int now - l" using rng by (rule wrap64_id)
  have ln: "legal_number (sh_decimal (int now - l)) = Some (int now - l)"
    using rng by (rule legal_number_decimal)
  from a show "should_backup_now X ''TRUE'' iv now (Content c) =
        Returns (if n \<le> int now - l then 0 else 1)"
    by (simp add: should_backup_now_def Let_def test_le_def test_ge_def legal_number_0 w ln)
qed

lemma should_backup_now_gated_example:
  "should_backup_now X0 ''TRUE'' ''24h'' (1704110400 + 23 * 3600) (Content ''1704110400\<newline>'')
     = Returns 1 \<and>
   should_backup_now X0 ''TRUE'' ''24h'' (1704110400 + 25 * 3600) (Content ''1704110400\<newline>'')
     = Returns 0 \<and>
   should_backup_now X0 ''TRUE'' ''0h'' 1704200000 (Content ''1704110400\<newline>'') = Returns 0 \<and>
   should_backup_now X0 ''TRUE'' ''soon'' 1704200000 (Content ''1704110400\<newline>'') = Returns 0 \<and>
   should_backup_now X0 ''TRUE'' ''24h'' 1704200000 NoFile = Returns 0 \<and>
   should_backup_now X0 ''no'' ''24h'' 1704200000 NoFile = Returns 1"
proof -
  note g = should_backup_now_gated
  have nd: "\<not> all_digits ''soon''" by (simp add: all_digits_def is_digit_def)
  have l0: "legal_number ''0'' = Some 0" by (rule legal_number_0)
  have a: "should_backup_now X0 ''TRUE'' ''24h'' (1704110400 + 23 * 3600)
      (Content ''1704110400\<newline>'') = Returns 1"
    using g[of "''TRUE''" X0 "''24h''" "1704110400 + 23 * 3600" NoFile 86400
        "''1704110400\<newline>''" 1704110400]
    by (simp add: parse_24h legal_86400 stamp_value)
  have b: "should_backup_now X0 ''TRUE'' ''24h'' (1704110400 + 25 * 3600)
      (Content ''1704110400\<newline>'') = Returns 0"
    using g[of "''TRUE''" X0 "''24h''" "1704110400 + 25 * 3600" NoFile 86400
        "''1704110400\<newline>''" 1704110400]
    by (simp add: parse_24h legal_86400 stamp_value)
  have c: "should_backup_now X0 ''TRUE'' ''0h'' 1704200000 (Content ''1704110400\<newline>'') = Returns 0"
    using g[of "''TRUE''" X0 "''0h''" 1704200000 "Content ''1704110400\<newline>''" 0 "[]" 0]
    by (simp add: parse_0h l0)
  have d: "should_backup_now X0 ''TRUE'' ''soon'' 1704200000 (Content ''1704110400\<newline>'') = Returns 0"
    using g[of "''TRUE''" X0 "''soon''" 1704200000 "Content ''1704110400\<newline>''" 0 "[]" 0] nd
    by simp
  have e: "should_backup_now X0 ''TRUE'' ''24h'' 1704200000 NoFile = Returns 0"
    using g[of "''TRUE''" X0 "''24h''" 1704200000 NoFile 0 "[]" 0] by simp
  have f: "should_backup_now X0 ''no'' ''24h'' 1704200000 NoFile = Returns 1"
    using g[of "''no''" X0 "''24h''" 1704200000 NoFile 0 "[]" 0] by simp
  from a b c d e f show ?thesis by simp
qed

text \<open>Once the parser has printed nothing and a timestamp is on file, the result is never
  "due", whatever the clock.\<close>

lemma failed_parse_never_due:
  "parse_interval_to_seconds X iv = [] \<Longrightarrow>
     should_backup_now X ''TRUE'' iv now (Content c) \<noteq> Returns 0"
  by (simp add: should_backup_now_def test_le_def test_ge_def legal_number_def
      split: option.splits)

section \<open>Lemmas: the backup scripts\<close>







lemma glob_Alpha:
  "matches_world_glob ''Alpha'' ''Alpha_2024-01-01.tar.gz''"
  "matches_world_glob ''Alpha'' ''Alpha_2024-01-01_12-00-00.tar.gz''"
  by (simp_all add: matches_world_glob_def startsWith_def endsWith_def)

lemma backup_sh_first:
  "backup_sh ''Alpha'' (run_noon c) d_morning =
     (0, [(''Alpha_2024-01-01_12-00-00.tar.gz'', 1704110400, c),
          (''Alpha_2024-01-01.tar.gz'', 1704096000, ''snapshot-0'')])"
  by (simp add: backup_sh_def run_noon_def d_morning_def backup_file_name_def file_exists_def
      write_file_def remove_files_def ls_t_def ls_key_def world_archives_def glob_Alpha Let_def)

lemma backup_sh_second:
  "backup_sh ''Alpha'' (run_noon c2)
     [(''Alpha_2024-01-01_12-00-00.tar.gz'', 1704110400, c1),
      (''Alpha_2024-01-01.tar.gz'', 1704096000, ''snapshot-0'')] =
     (0, [(''Alpha_2024-01-01_12-00-00.tar.gz'', 1704110400, c2),
          (''Alpha_2024-01-01.tar.gz'', 1704096000, ''snapshot-0'')])"
  by (simp add: backup_sh_def run_noon_def backup_file_name_def file_exists_def
      write_file_def remove_files_def ls_t_def ls_key_def world_archives_def glob_Alpha Let_def)

lemma do_backup_first:
  "do_backup ''Alpha'' (run_noon c) [] =
     (Done, [(''.last_backup_Alpha'', 1704110400, ''1704110400\<newline>''),
             (''Alpha-20240101-120000.tar.gz'', 1704110400, c)])"
  by (simp add: do_backup_def run_noon_def write_file_def Let_def dec_digits.simps digit_char_simps)

lemma do_backup_second:
  "do_backup ''Alpha'' (run_noon c2)
       [(''.last_backup_Alpha'', 1704110400, ''1704110400\<newline>''),
        (''Alpha-20240101-120000.tar.gz'', 1704110400, c1)] =
     (Done, [(''.last_backup_Alpha'', 1704110400, ''1704110400\<newline>''),
             (''Alpha-20240101-120000.tar.gz'', 1704110400, c2)])"
  by (simp add: do_backup_def run_noon_def write_file_def Let_def dec_digits.simps digit_char_simps)







section \<open>Claims about the HTTP routes\<close>

text \<open>
  C3. For every valid world name with no registry entry, the stop route answers
  \<open>alreadyStopped\<close> (the "no PID file" message) and returns the state it was given: no call
  of \<^verbatim>\<open>process.kill\<close> is logged and nothing is written.
\<close>

theorem stop_never_started:
  "validateWorldName w \<Longrightarrow> pid_files s w = None \<Longrightarrow>
     stop vanished (Some w) s = (AlreadyStopped ''No running server found (no PID file).'', s)"
  by (simp add: stop_def trim_valid validateWorldName_def)

theorem stop_never_started_witness:
  "validateWorldName ''Alpha'' \<and> pid_files s_empty ''Alpha'' = None \<and>
   stop False (Some ''Alpha'') s_empty = (AlreadyStopped ''No running server found (no PID file).'', s_empty) \<and>
   kill_log s_empty = []"
  using stop_never_started[of "''Alpha''" s_empty False]
  by (simp add: valid_Alpha s_empty_def)

text \<open>
  C2. If the registry holds a pid for the world and \<^verbatim>\<open>process.kill(pid, 0)\<close> succeeds, a
  start request that passes the route's checks is answered 409 (already running); the only
  changes to the state are the existence of the pid directory and the logged probe, so no
  process is spawned and the registry is not written. Hence a second start, made on the state
  a successful first start of a child with a positive pid leaves behind, is answered 409 and
  spawns nothing: the two calls together spawn exactly once, and the second adds no process.
\<close>

theorem start_twice_conflict:
  "(request_valid b \<and> pid_files s (body_name b) = Some ptext \<and> parseInt10 ptext = Some p \<and>
      p \<noteq> 0 \<and> p \<in> procs s \<longrightarrow>
      start e b s = (Conflict ''Server already running for this world.'',
                     log_kill p Sig0 (s\<lparr>pid_dir := True\<rparr>)) \<and>
      spawn_log (snd (start e b s)) = spawn_log s \<and>
      pid_files (snd (start e b s)) = pid_files s) \<and>
   (fst (start e b s) = StartOk r \<and> ok_pid r = Some child \<and> 0 < child \<longrightarrow>
      fst (start e' b (snd (start e b s))) = Conflict ''Server already running for this world.'' \<and>
      spawn_log (snd (start e' b (snd (start e b s)))) = spawn_log (snd (start e b s)) \<and>
      length (spawn_log (snd (start e b s))) = Suc (length (spawn_log s)) \<and>
      procs (snd (start e' b (snd (start e b s)))) = insert child (procs s))"
proof (intro conjI impI)
  assume a: "request_valid b \<and> pid_files s (body_name b) = Some ptext \<and> parseInt10 ptext = Some p \<and>
      p \<noteq> 0 \<and> p \<in> procs s"
  then have c: "start e b s = (Conflict ''Server already running for this world.'',
                     log_kill p Sig0 (s\<lparr>pid_dir := True\<rparr>))"
    by (intro start_conflict[where ptext=ptext]) simp_all
  then show "start e b s = (Conflict ''Server already running for this world.'',
                     log_kill p Sig0 (s\<lparr>pid_dir := True\<rparr>))" .
  from c show "spawn_log (snd (start e b s)) = spawn_log s" by (simp add: log_kill_def)
  from c show "pid_files (snd (start e b s)) = pid_files s" by (simp add: log_kill_def)
next
  assume a: "fst (start e b s) = StartOk r \<and> ok_pid r = Some child \<and> 0 < child"
  define s1 where "s1 = snd (start e b s)"
  from a have st: "start e b s = (StartOk r, s1)" by (simp add: s1_def prod_eq_iff)
  note ok = start_ok_state[OF st]
  from ok a have pf: "pid_files s1 (body_name b) = Some (js_String child)"
    and pr: "procs s1 = insert child (procs s)" and rv: "request_valid b"
    and len: "length (spawn_log s1) = Suc (length (spawn_log s))" by simp_all
  have c: "start e' b s1 = (Conflict ''Server already running for this world.'',
                     log_kill child Sig0 (s1\<lparr>pid_dir := True\<rparr>))"
    using rv pf pr a by (intro start_conflict[where ptext="js_String child"]) (simp_all add: parseInt10_js_String)
  from c show "fst (start e' b (snd (start e b s))) = Conflict ''Server already running for this world.''"
    by (simp add: s1_def)
  from c show "spawn_log (snd (start e' b (snd (start e b s)))) = spawn_log (snd (start e b s))"
    by (simp add: s1_def[symmetric] log_kill_def)
  from len show "length (spawn_log (snd (start e b s))) = Suc (length (spawn_log s))"
    by (simp add: s1_def)
  from c pr show "procs (snd (start e' b (snd (start e b s)))) = insert child (procs s)"
    by (simp add: s1_def[symmetric] log_kill_def)
qed

theorem start_twice_conflict_witness:
  "request_valid (body_of ''Alpha'') \<and>
   pid_files s_alpha_live (body_name (body_of ''Alpha'')) = Some ''4242'' \<and>
   parseInt10 ''4242'' = Some 4242 \<and> 4242 \<in> procs s_alpha_live \<and>
   start env_example (body_of ''Alpha'') s_alpha_live =
     (Conflict ''Server already running for this world.'',
      log_kill 4242 Sig0 (s_alpha_live\<lparr>pid_dir := True\<rparr>)) \<and>
   fst (start env_example (body_of ''Alpha'') s_empty) =
     StartOk \<lparr>ok_worldName = ''Alpha'', ok_pid = Some 4242, ok_memory = ''2G'',
              ok_jar = ''/srv/mc/server.jar'', ok_jarDir = ''/srv/mc'', ok_requestedPort = 25565,
              ok_port = 25565, ok_portAutoPicked = False\<rparr> \<and>
   fst (start env_example (body_of ''Alpha'') (snd (start env_example (body_of ''Alpha'') s_empty)))
     = Conflict ''Server already running for this world.'' \<and>
   length (spawn_log (snd (start env_example (body_of ''Alpha'')
      (snd (start env_example (body_of ''Alpha'') s_empty))))) = 1 \<and>
   procs (snd (start env_example (body_of ''Alpha'')
      (snd (start env_example (body_of ''Alpha'') s_empty)))) = {4242}"
proof -
  have rv: "request_valid (body_of ''Alpha'')"
    by (simp add: request_valid_def body_of_def trim_Alpha)
  have bn: "body_name (body_of ''Alpha'') = ''Alpha''"
    by (simp add: body_name_def body_of_def trim_Alpha)
  have pf: "pid_files s_alpha_live ''Alpha'' = Some ''4242''" "4242 \<in> procs s_alpha_live"
    by (simp_all add: s_alpha_live_def)
  have first: "start env_example (body_of ''Alpha'') s_alpha_live =
     (Conflict ''Server already running for this world.'',
      log_kill 4242 Sig0 (s_alpha_live\<lparr>pid_dir := True\<rparr>))"
    using start_twice_conflict[of "body_of ''Alpha''" s_alpha_live "''4242''" 4242 env_example]
      rv bn pf parse_4242
    by simp
  have second: "fst (start env_example (body_of ''Alpha'')
        (snd (start env_example (body_of ''Alpha'') s_empty)))
     = Conflict ''Server already running for this world.'' \<and>
   length (spawn_log (snd (start env_example (body_of ''Alpha'')
      (snd (start env_example (body_of ''Alpha'') s_empty))))) = 1 \<and>
   procs (snd (start env_example (body_of ''Alpha'')
      (snd (start env_example (body_of ''Alpha'') s_empty)))) = {4242}"
    using start_twice_conflict[of "body_of ''Alpha''" s_empty undefined undefined env_example
      "\<lparr>ok_worldName = ''Alpha'', ok_pid = Some 4242, ok_memory = ''2G'',
              ok_jar = ''/srv/mc/server.jar'', ok_jarDir = ''/srv/mc'', ok_requestedPort = 25565,
              ok_port = 25565, ok_portAutoPicked = False\<rparr>" 4242 env_example]
      start_example
    by (simp add: s_empty_def)
  from rv bn pf parse_4242 first second start_example show ?thesis by simp
qed

text \<open>
  C4 fails for the status route: on a stale record it reports \<open>running = false\<close> and leaves
  the record in the registry.
\<close>

theorem status_keeps_stale_record:
  "stale s_alpha_stale ''Alpha'' \<and>
   fst (status (Some ''Alpha'') s_alpha_stale) = Status False None \<and>
   pid_files (snd (status (Some ''Alpha'') s_alpha_stale)) ''Alpha'' = Some ''999''"
  by (simp add: stale_def s_alpha_stale_def status_def trim_Alpha parse_999 isAlive_def
      log_kill_def Let_def)

text \<open>
  C4, amended. For a world with a stale record: the stop route answers \<open>alreadyStopped\<close> and
  clears the record; the status route answers \<open>running = false\<close> without a pid and leaves the
  registry as it is; the start route does not clear the record either: when it succeeds it
  overwrites the record with the text of the new child's pid, and when it does not succeed
  the stale record is still there.
\<close>

theorem stale_record_handling:
  "stale s name \<and> name \<noteq> [] \<and> trim w = name \<longrightarrow>
     (\<exists>msg. fst (stop vanished (Some w) s) = AlreadyStopped msg) \<and>
     pid_files (snd (stop vanished (Some w) s)) name = None \<and>
     fst (status (Some w) s) = Status False None \<and>
     pid_files (snd (status (Some w) s)) = pid_files s \<and>
     (worldName b = Some w \<longrightarrow>
        (\<forall>r. fst (start e b s) = StartOk r \<longrightarrow>
           pid_files (snd (start e b s)) name =
             Some (case ok_pid r of None \<Rightarrow> ''undefined'' | Some c \<Rightarrow> js_String c)) \<and>
        ((\<forall>r. fst (start e b s) \<noteq> StartOk r) \<longrightarrow>
           pid_files (snd (start e b s)) name = pid_files s name))"
proof (intro impI)
  assume a: "stale s name \<and> name \<noteq> [] \<and> trim w = name"
  then obtain ptext where pt: "pid_files s name = Some ptext"
    by (auto simp: stale_def split: option.splits)
  from a pt have na: "fst (isAlive (parseInt10 ptext) s) = False"
    using isAlive_stale by blast
  obtain s1 where ia: "isAlive (parseInt10 ptext) s = (False, s1)"
    using na by (cases "isAlive (parseInt10 ptext) s") simp
  have pf1: "pid_files s1 = pid_files s"
    using isAlive_pid_files[of "parseInt10 ptext" s] ia by simp
  have stop_eq: "stop vanished (Some w) s =
      (AlreadyStopped ''No running server found (stale PID cleaned).'', unlink_pid name s1)"
    using a pt ia by (simp add: stop_def)
  have status_eq: "status (Some w) s = (Status False None, s1)"
    using a pt ia by (simp add: status_def)
  have start_part: "worldName b = Some w \<longrightarrow>
        (\<forall>r. fst (start e b s) = StartOk r \<longrightarrow>
           pid_files (snd (start e b s)) name =
             Some (case ok_pid r of None \<Rightarrow> ''undefined'' | Some c \<Rightarrow> js_String c)) \<and>
        ((\<forall>r. fst (start e b s) \<noteq> StartOk r) \<longrightarrow>
           pid_files (snd (start e b s)) name = pid_files s name)"
  proof (intro impI conjI allI)
    fix r assume wn: "worldName b = Some w" and ok: "fst (start e b s) = StartOk r"
    then have "start e b s = (StartOk r, snd (start e b s))" by (simp add: prod_eq_iff)
    from start_ok_state[OF this] wn a
    show "pid_files (snd (start e b s)) name =
             Some (case ok_pid r of None \<Rightarrow> ''undefined'' | Some c \<Rightarrow> js_String c)"
      by (simp add: body_name_def)
  next
    assume wn: "worldName b = Some w" and nok: "\<forall>r. fst (start e b s) \<noteq> StartOk r"
    obtain run s2 where ar: "already_running name (s\<lparr>pid_dir := True\<rparr>) = (run, s2)"
      by (cases "already_running name (s\<lparr>pid_dir := True\<rparr>)")
    note st2 = already_running_state[OF ar]
    from nok wn a ar show "pid_files (snd (start e b s)) name = pid_files s name"
      apply (simp add: start_def Let_def split: option.splits port_value.splits if_splits prod.splits)
      apply (auto dest!: resolve_jar_state simp: st2 launch_not_ok_snd)
      done
  qed
  show "(\<exists>msg. fst (stop vanished (Some w) s) = AlreadyStopped msg) \<and>
     pid_files (snd (stop vanished (Some w) s)) name = None \<and>
     fst (status (Some w) s) = Status False None \<and>
     pid_files (snd (status (Some w) s)) = pid_files s \<and>
     (worldName b = Some w \<longrightarrow>
        (\<forall>r. fst (start e b s) = StartOk r \<longrightarrow>
           pid_files (snd (start e b s)) name =
             Some (case ok_pid r of None \<Rightarrow> ''undefined'' | Some c \<Rightarrow> js_String c)) \<and>
        ((\<forall>r. fst (start e b s) \<noteq> StartOk r) \<longrightarrow>
           pid_files (snd (start e b s)) name = pid_files s name))"
    using stop_eq status_eq pf1 start_part by (simp add: unlink_pid_def)
qed

theorem stale_record_handling_witness:
  "stale s_alpha_stale ''Alpha'' \<and>
   fst (stop False (Some ''Alpha'') s_alpha_stale) =
     AlreadyStopped ''No running server found (stale PID cleaned).'' \<and>
   pid_files (snd (stop False (Some ''Alpha'') s_alpha_stale)) ''Alpha'' = None \<and>
   fst (status (Some ''Alpha'') s_alpha_stale) = Status False None \<and>
   pid_files (snd (status (Some ''Alpha'') s_alpha_stale)) ''Alpha'' = Some ''999'' \<and>
   pid_files (snd (start env_example (body_of ''Alpha'') s_alpha_stale)) ''Alpha'' = Some ''4242'' \<and>
   fst (start env_example (body_of ''Alpha'' \<lparr>port := Some PortOther\<rparr>) s_alpha_stale) =
     BadRequest ''Invalid port number. Must be between 1 and 65535.'' \<and>
   pid_files (snd (start env_example (body_of ''Alpha'' \<lparr>port := Some PortOther\<rparr>) s_alpha_stale))
     ''Alpha'' = Some ''999''"
proof -
  have st: "stale s_alpha_stale ''Alpha''"
    by (simp add: stale_def s_alpha_stale_def parse_999)
  have ar: "already_running ''Alpha'' (s_alpha_stale\<lparr>pid_dir := True\<rparr>) =
      (False, log_kill 999 Sig0 (s_alpha_stale\<lparr>pid_dir := True\<rparr>))"
    by (simp add: already_running_def s_alpha_stale_def parse_999 start_isAlive_def)
  have ok: "fst (start env_example (body_of ''Alpha'') s_alpha_stale) =
      StartOk \<lparr>ok_worldName = ''Alpha'', ok_pid = Some 4242, ok_memory = ''2G'',
              ok_jar = ''/srv/mc/server.jar'', ok_jarDir = ''/srv/mc'', ok_requestedPort = 25565,
              ok_port = 25565, ok_portAutoPicked = False\<rparr>"
    by (simp add: start_example_run[OF ar trim_Alpha])
  have bad: "fst (start env_example (body_of ''Alpha'' \<lparr>port := Some PortOther\<rparr>) s_alpha_stale) =
     BadRequest ''Invalid port number. Must be between 1 and 65535.''"
    by (simp add: start_def body_of_def trim_Alpha)
  have sp: "fst (stop False (Some ''Alpha'') s_alpha_stale) =
     AlreadyStopped ''No running server found (stale PID cleaned).''"
    by (simp add: stop_def trim_Alpha s_alpha_stale_def parse_999 isAlive_def Let_def)
  have pf: "pid_files s_alpha_stale ''Alpha'' = Some ''999''"
    by (simp add: s_alpha_stale_def)
  have wn: "worldName (body_of ''Alpha'') = Some ''Alpha''"
    "worldName (body_of ''Alpha'' \<lparr>port := Some PortOther\<rparr>) = Some ''Alpha''"
    by (simp_all add: body_of_def)
  have one: "pid_files (snd (stop False (Some ''Alpha'') s_alpha_stale)) ''Alpha'' = None \<and>
   fst (status (Some ''Alpha'') s_alpha_stale) = Status False None \<and>
   pid_files (snd (status (Some ''Alpha'') s_alpha_stale)) ''Alpha'' = Some ''999'' \<and>
   pid_files (snd (start env_example (body_of ''Alpha'') s_alpha_stale)) ''Alpha'' = Some ''4242''"
    using stale_record_handling[of s_alpha_stale "''Alpha''" "''Alpha''" False "body_of ''Alpha''"
        env_example] st ok pf wn
    by (simp add: trim_Alpha js_String_4242)
  have two: "pid_files (snd (start env_example (body_of ''Alpha'' \<lparr>port := Some PortOther\<rparr>)
      s_alpha_stale)) ''Alpha'' = Some ''999''"
    using stale_record_handling[of s_alpha_stale "''Alpha''" "''Alpha''" False
        "body_of ''Alpha'' \<lparr>port := Some PortOther\<rparr>" env_example] st bad pf wn
    by (simp add: trim_Alpha)
  from st sp bad one two show ?thesis by simp
qed

text \<open>
  C6 fails on the start route: the route validates nothing but the emptiness of the trimmed
  name, although the whitelist and server-properties routes of the same application test
  \<^const>\<open>validateWorldName\<close>. A request for the world \<^verbatim>\<open>../evil\<close>, which the pattern rejects,
  creates the pid directory and a directory outside \<^verbatim>\<open>worlds/\<close>, spawns the server and
  writes a pid file outside the pid directory.
\<close>

theorem start_accepts_traversal_name:
  "\<not> validateWorldName ''../evil'' \<and>
   start env_example (body_of ''../evil'') s_empty =
     (StartOk \<lparr>ok_worldName = ''../evil'', ok_pid = Some 4242, ok_memory = ''2G'',
              ok_jar = ''/srv/mc/server.jar'', ok_jarDir = ''/srv/mc'', ok_requestedPort = 25565,
              ok_port = 25565, ok_portAutoPicked = False\<rparr>,
      \<lparr>pid_dir = True, pid_files = [''../evil'' \<mapsto> ''4242''], world_dirs = {''../evil''},
       jar_writes = [], procs = {4242}, kill_log = [],
       spawn_log = [[''-Xmx2G'', ''-Xms2G'', ''-jar'', ''/srv/mc/server.jar'', ''nogui'',
                     ''--world'', ''/srv/mc/worlds/../evil'', ''--port'', ''25565'']],
       archives = []\<rparr>)"
proof -
  have nv: "\<not> validateWorldName ''../evil''"
    by (simp add: validateWorldName_def world_chars_def)
  have tr: "trim ''../evil'' = ''../evil''"
    by (simp add: trim_def is_js_space_def)
  have ar: "already_running ''../evil'' (s_empty\<lparr>pid_dir := True\<rparr>) = (False, s_empty\<lparr>pid_dir := True\<rparr>)"
    by (simp add: already_running_def s_empty_def)
  have run: "start env_example (body_of ''../evil'') s_empty =
     (StartOk \<lparr>ok_worldName = ''../evil'', ok_pid = Some 4242, ok_memory = ''2G'',
              ok_jar = ''/srv/mc/server.jar'', ok_jarDir = ''/srv/mc'', ok_requestedPort = 25565,
              ok_port = 25565, ok_portAutoPicked = False\<rparr>,
      write_pid ''../evil'' ''4242''
        (s_empty\<lparr>pid_dir := True, world_dirs := insert ''../evil'' (world_dirs (s_empty\<lparr>pid_dir := True\<rparr>)),
            spawn_log := spawn_log (s_empty\<lparr>pid_dir := True\<rparr>) @
              [[''-Xmx2G'', ''-Xms2G'', ''-jar'', ''/srv/mc/server.jar'', ''nogui'', ''--world'',
                ''/srv/mc/worlds/'' @ ''../evil'', ''--port'', ''25565'']],
            procs := insert 4242 (procs (s_empty\<lparr>pid_dir := True\<rparr>))\<rparr>))"
    by (rule start_example_run[OF ar tr]) simp
  show ?thesis
    using nv by (simp add: run) (simp add: write_pid_def s_empty_def)
qed

text \<open>
  C5. When the exclusive bind of the requested port succeeds, the allocator returns that
  port, not reassigned, after that single bind. When it fails and the bind of port 0 yields
  an address whose port is free (binding it would succeed), the allocator returns that port,
  reassigned and different from the requested one, after exactly two binds: the requested
  port once, then port 0.
\<close>

theorem findAvailablePort_reassigns:
  "(os p \<noteq> ListenError \<longrightarrow> findAvailablePort os p = (Some (p, False), [p])) \<and>
   (os p = ListenError \<and> os 0 = Listening (AddressInfo e) \<and> os e \<noteq> ListenError \<longrightarrow>
      findAvailablePort os p = (Some (e, True), [p, 0]) \<and> e \<noteq> p)"
  by (auto simp: findAvailablePort_def checkPortAvailable_def getEphemeralPort_def
      split: listen_event.splits)

theorem findAvailablePort_reassigns_witness:
  "findAvailablePort os_busy 25566 = (Some (25566, False), [25566]) \<and>
   os_busy 25565 = ListenError \<and> os_busy 0 = Listening (AddressInfo 49152) \<and>
   os_busy 49152 \<noteq> ListenError \<and>
   findAvailablePort os_busy 25565 = (Some (49152, True), [25565, 0])"
  using findAvailablePort_reassigns[of os_busy 25566 0]
    findAvailablePort_reassigns[of os_busy 25565 49152]
  by (simp add: os_busy_def)

text \<open>
  C7 fails on \<^verbatim>\<open>findExistingJar\<close> in two places. A jar that carries the backup marker is
  a candidate like any other: a directory holding only \<^verbatim>\<open>server.old.jar\<close> resolves to it.
  And a tie in modification time goes to the name that comes first in the directory listing,
  here the lexicographically smaller \<^verbatim>\<open>a.jar\<close>, not to the greatest name.
\<close>

theorem findExistingJar_marker_and_tie:
  "findExistingJar readdir_old_only stat_same ''/srv/mc'' = Some ''/srv/mc/server.old.jar'' \<and>
   has_old_marker ''server.old.jar'' \<and>
   findExistingJar readdir_tie stat_same ''/srv/mc'' = Some ''/srv/mc/a.jar'' \<and>
   stat_same ''/srv/mc/a.jar'' = stat_same ''/srv/mc/b.jar'' \<and>
   ''a.jar'' < ''b.jar''"
  by (simp add: find_jar_old_only find_jar_tie has_old_marker_def endsWith_def stat_same_def)

text \<open>
  C7, amended. For a directory that can be listed, the candidates are the regular files whose
  lower-cased name ends in \<^verbatim>\<open>.jar\<close> (marked or not); the pool is the candidates matching
  \<^verbatim>\<open>server*.jar\<close> case-insensitively when there are any, and all candidates otherwise. The
  resolver finds nothing exactly when there is no candidate or the modification time of a
  pool member cannot be read. Otherwise it returns the pool member with the most recent
  modification time, the first such member in listing order.
\<close>

theorem findExistingJar_newest:
  "rdir dir = Some entries \<longrightarrow>
     (\<forall>n. n \<in> set (jar_candidates entries) \<longleftrightarrow>
            (n, True) \<in> set entries \<and> endsWith (toLowerCase n) ''.jar'') \<and>
     set (jar_pool (jar_candidates entries)) =
       (if \<exists>m\<in>set (jar_candidates entries). is_server_jar m
        then {m \<in> set (jar_candidates entries). is_server_jar m}
        else set (jar_candidates entries)) \<and>
     (findExistingJar rdir mt dir = None \<longleftrightarrow>
        jar_candidates entries = [] \<or>
        (\<exists>n\<in>set (jar_pool (jar_candidates entries)). mt (path_join dir n) = None)) \<and>
     (\<forall>r. findExistingJar rdir mt dir = Some r \<longrightarrow>
        (\<exists>i t. i < length (jar_pool (jar_candidates entries)) \<and>
           r = path_join dir (jar_pool (jar_candidates entries) ! i) \<and>
           mt r = Some t \<and>
           (\<forall>j<i. \<exists>u. mt (path_join dir (jar_pool (jar_candidates entries) ! j)) = Some u \<and> u < t) \<and>
           (\<forall>m\<in>set (jar_pool (jar_candidates entries)).
              \<exists>u. mt (path_join dir m) = Some u \<and> u \<le> t)))"
proof (intro impI conjI allI)
  fix n
  show "n \<in> set (jar_candidates entries) \<longleftrightarrow>
            (n, True) \<in> set entries \<and> endsWith (toLowerCase n) ''.jar''"
    by (rule jar_candidates_iff)
next
  show "set (jar_pool (jar_candidates entries)) =
       (if \<exists>m\<in>set (jar_candidates entries). is_server_jar m
        then {m \<in> set (jar_candidates entries). is_server_jar m}
        else set (jar_candidates entries))"
    by (rule jar_pool_set)
next
  assume rd: "rdir dir = Some entries"
  define pool where "pool = jar_pool (jar_candidates entries)"
  define g where "g = (\<lambda>n. mt (path_join dir n))"
  have unf: "findExistingJar rdir mt dir =
     (if jar_candidates entries = [] then None
      else case those (map (\<lambda>n. map_option (Pair n) (g n)) pool) of
             None \<Rightarrow> None
           | Some stats \<Rightarrow>
               (case sort_key (\<lambda>a. - snd a) stats of [] \<Rightarrow> None
                | a # _ \<Rightarrow> Some (path_join dir (fst a))))"
    using findExistingJar_unfold[of rdir dir entries mt] rd by (simp add: pool_def g_def)
  have sorted_ne: "sort_key f xs \<noteq> []" if "xs \<noteq> []" for f :: "string \<times> rat \<Rightarrow> rat" and xs
    using that by (metis length_sort length_0_conv)
  show "findExistingJar rdir mt dir = None \<longleftrightarrow>
        jar_candidates entries = [] \<or>
        (\<exists>n\<in>set (jar_pool (jar_candidates entries)). mt (path_join dir n) = None)"
  proof (cases "jar_candidates entries = []")
    case True
    then show ?thesis by (simp add: unf)
  next
    case False
    then have pne: "pool \<noteq> []" by (simp add: pool_def jar_pool_nonempty)
    show ?thesis
    proof (cases "those (map (\<lambda>n. map_option (Pair n) (g n)) pool)")
      case None
      then have ex: "\<exists>n\<in>set pool. g n = None" by (simp add: those_stat_None)
      have "findExistingJar rdir mt dir = None" using False None by (simp add: unf)
      moreover have "\<exists>n\<in>set (jar_pool (jar_candidates entries)). mt (path_join dir n) = None"
        using ex by (simp add: pool_def g_def)
      ultimately show ?thesis by simp
    next
      case (Some stats)
      then have all: "\<forall>n\<in>set pool. g n \<noteq> None" and st: "stats = map (\<lambda>n. (n, the (g n))) pool"
        by (simp_all add: those_stat_Some)
      from st pne have "stats \<noteq> []" by simp
      then have "sort_key (\<lambda>a. - snd a) stats \<noteq> []" by (rule sorted_ne)
      then have "findExistingJar rdir mt dir \<noteq> None"
        using False Some by (simp add: unf split: list.splits)
      moreover have "\<not> (\<exists>n\<in>set (jar_pool (jar_candidates entries)). mt (path_join dir n) = None)"
        using all by (simp add: pool_def g_def)
      ultimately show ?thesis using False by blast
    qed
  qed
  fix r
  assume res: "findExistingJar rdir mt dir = Some r"
  then have cne: "jar_candidates entries \<noteq> []" by (auto simp: unf split: if_splits)
  from res cne obtain stats where th: "those (map (\<lambda>n. map_option (Pair n) (g n)) pool) = Some stats"
    by (auto simp: unf split: option.splits)
  then have all: "\<forall>n\<in>set pool. g n \<noteq> None" and st: "stats = map (\<lambda>n. (n, the (g n))) pool"
    by (simp_all add: those_stat_Some)
  from res cne th obtain a as where so: "sort_key (\<lambda>a. - snd a) stats = a # as"
    and r: "r = path_join dir (fst a)"
    by (auto simp: unf split: list.splits)
  from hd_sort_key[OF so] obtain i where i: "i < length stats" "stats ! i = a"
    "\<forall>j<i. - snd a < - snd (stats ! j)" "\<forall>x\<in>set stats. - snd a \<le> - snd x" by blast
  have ip: "i < length pool" using i(1) st by simp
  have a: "a = (pool ! i, the (g (pool ! i)))" using i(2) ip st by simp
  have "pool ! i \<in> set pool" using ip by simp
  then obtain y where "g (pool ! i) = Some y" using all by auto
  then have gi: "g (pool ! i) = Some (snd a)" using a by simp
  show "\<exists>i t. i < length (jar_pool (jar_candidates entries)) \<and>
           r = path_join dir (jar_pool (jar_candidates entries) ! i) \<and>
           mt r = Some t \<and>
           (\<forall>j<i. \<exists>u. mt (path_join dir (jar_pool (jar_candidates entries) ! j)) = Some u \<and> u < t) \<and>
           (\<forall>m\<in>set (jar_pool (jar_candidates entries)).
              \<exists>u. mt (path_join dir m) = Some u \<and> u \<le> t)"
  proof (rule exI[of _ i], rule exI[of _ "snd a"], intro conjI allI impI ballI)
    show "i < length (jar_pool (jar_candidates entries))" using ip by (simp add: pool_def)
    show "r = path_join dir (jar_pool (jar_candidates entries) ! i)"
      using r a by (simp add: pool_def)
    show "mt r = Some (snd a)" using gi r a by (simp add: g_def)
  next
    fix j assume j: "j < i"
    then have jp: "j < length pool" using ip by simp
    then have "pool ! j \<in> set pool" by simp
    then obtain u where u: "g (pool ! j) = Some u" using all by auto
    have "stats ! j = (pool ! j, u)" using st jp u by simp
    moreover have "- snd a < - snd (stats ! j)" using i(3) j by blast
    ultimately have "u < snd a" by simp
    with u show "\<exists>u. mt (path_join dir (jar_pool (jar_candidates entries) ! j)) = Some u \<and> u < snd a"
      by (simp add: g_def pool_def)
  next
    fix m assume "m \<in> set (jar_pool (jar_candidates entries))"
    then have m: "m \<in> set pool" by (simp add: pool_def)
    then obtain u where u: "g m = Some u" using all by auto
    from m st u have "(m, u) \<in> set stats" by (auto simp: image_iff intro!: bexI[of _ m])
    with i(4) have "u \<le> snd a" by fastforce
    with u show "\<exists>u. mt (path_join dir m) = Some u \<and> u \<le> snd a" by (simp add: g_def)
  qed
qed

theorem findExistingJar_newest_witness:
  "readdir_three ''/srv/mc'' =
     Some [(''paper.jar'', True), (''server-1.20.jar'', True), (''Server-1.21.JAR'', True),
           (''notes.txt'', True), (''server-dir.jar'', False)] \<and>
   jar_pool (jar_candidates [(''paper.jar'', True), (''server-1.20.jar'', True),
       (''Server-1.21.JAR'', True), (''notes.txt'', True), (''server-dir.jar'', False)]) =
     [''server-1.20.jar'', ''Server-1.21.JAR''] \<and>
   findExistingJar readdir_three stat_three ''/srv/mc'' = Some ''/srv/mc/Server-1.21.JAR'' \<and>
   (\<exists>i t. i < length [''server-1.20.jar'', ''Server-1.21.JAR''] \<and>
      ''/srv/mc/Server-1.21.JAR'' = path_join ''/srv/mc'' ([''server-1.20.jar'', ''Server-1.21.JAR''] ! i) \<and>
      stat_three ''/srv/mc/Server-1.21.JAR'' = Some t \<and>
      (\<forall>j<i. \<exists>u. stat_three (path_join ''/srv/mc'' ([''server-1.20.jar'', ''Server-1.21.JAR''] ! j)) = Some u \<and> u < t) \<and>
      (\<forall>m\<in>set [''server-1.20.jar'', ''Server-1.21.JAR''].
         \<exists>u. stat_three (path_join ''/srv/mc'' m) = Some u \<and> u \<le> t))"
proof -
  have rd: "readdir_three ''/srv/mc'' =
     Some [(''paper.jar'', True), (''server-1.20.jar'', True), (''Server-1.21.JAR'', True),
           (''notes.txt'', True), (''server-dir.jar'', False)]"
    by (simp add: readdir_three_def)
  have pool: "jar_pool (jar_candidates [(''paper.jar'', True), (''server-1.20.jar'', True),
       (''Server-1.21.JAR'', True), (''notes.txt'', True), (''server-dir.jar'', False)]) =
     [''server-1.20.jar'', ''Server-1.21.JAR'']"
    by (simp add: jar_pool_def candidates_examples primary_jar_names)
  from findExistingJar_newest[of readdir_three "''/srv/mc''" _ stat_three] rd
  have "\<forall>r. findExistingJar readdir_three stat_three ''/srv/mc'' = Some r \<longrightarrow>
        (\<exists>i t. i < length [''server-1.20.jar'', ''Server-1.21.JAR''] \<and>
           r = path_join ''/srv/mc'' ([''server-1.20.jar'', ''Server-1.21.JAR''] ! i) \<and>
           stat_three r = Some t \<and>
           (\<forall>j<i. \<exists>u. stat_three (path_join ''/srv/mc'' ([''server-1.20.jar'', ''Server-1.21.JAR''] ! j)) = Some u \<and> u < t) \<and>
           (\<forall>m\<in>set [''server-1.20.jar'', ''Server-1.21.JAR''].
              \<exists>u. stat_three (path_join ''/srv/mc'' m) = Some u \<and> u \<le> t))"
    unfolding pool[symmetric] by blast
  with find_jar_three rd pool show ?thesis by blast
qed

section \<open>Claims about the backup scheduler\<close>

text \<open>
  C8. The claim is that an unparsable interval always gives "due", and the script's own
  comment says the same ("If parsing failed, default to always backup"). The code misses
  the case of an interval with a unit letter whose numeric part the shell's arithmetic
  rejects. With the backup flag \<^verbatim>\<open>TRUE\<close>, the interval \<^verbatim>\<open>08h\<close> and a timestamp on file:
  \<^verbatim>\<open>$((num * 3600))\<close> fails on the invalid octal constant, so the parser prints nothing;
  \<^verbatim>\<open>[ "" -le 0 ]\<close> ends with status 2, so the branch that returns "due" is skipped; and
  \<^verbatim>\<open>[ "$delta" -ge "" ]\<close> ends with status 2, which is the function's result: "not due",
  although more than 24 hours have passed since the timestamp.
\<close>

theorem interval_08h_not_due:
  "parse_interval_to_seconds X ''08h'' = [] \<and>
   test_le [] ''0'' = 2 \<and>
   should_backup_now X ''TRUE'' ''08h'' 1704200000 (Content ''1704110400\<newline>'') = Returns 2"
proof -
  have e: "legal_number [] = None" by (simp add: legal_number_def)
  show ?thesis
    by (simp add: should_backup_now_def parse_08h test_le_def test_ge_def e stamp_value
        split: option.splits)
qed

text \<open>
  C9 fails on both scripts. \<^verbatim>\<open>backup.sh\<close> appends the time "to make it unique" only when
  the day's file exists, and does not test the name with the time appended: with a backup
  of that morning on disk, two runs within the same second write the same file, and the
  first run's archive is lost. \<^verbatim>\<open>do_backup\<close> of the launcher never tests for an existing
  name: two runs within the same second leave one archive, that of the second run.
\<close>

theorem same_second_backups_overwrite:
  "snd (backup_sh ''Alpha'' (run_noon ''snapshot-2'')
         (snd (backup_sh ''Alpha'' (run_noon ''snapshot-1'') d_morning))) =
     [(''Alpha_2024-01-01_12-00-00.tar.gz'', 1704110400, ''snapshot-2''),
      (''Alpha_2024-01-01.tar.gz'', 1704096000, ''snapshot-0'')] \<and>
   snd (do_backup ''Alpha'' (run_noon ''snapshot-2'')
         (snd (do_backup ''Alpha'' (run_noon ''snapshot-1'') []))) =
     [(''.last_backup_Alpha'', 1704110400, ''1704110400\<newline>''),
      (''Alpha-20240101-120000.tar.gz'', 1704110400, ''snapshot-2'')]"
  by (simp add: backup_sh_first backup_sh_second do_backup_first do_backup_second)




section \<open>The claim about stop and the shutdown backup\<close>

text \<open>
  C1 fails on the HTTP stop route: for a world with a live pid it sends the termination
  signal, clears the registry entry and answers \<open>stopped\<close>, and no archive is produced; the
  route contains no backup step.
\<close>

theorem http_stop_takes_no_backup:
  "fst (stop False (Some ''Alpha'') s_alpha_live) = Stopped 4242 \<and>
   pid_files (snd (stop False (Some ''Alpha'') s_alpha_live)) ''Alpha'' = None \<and>
   archives (snd (stop False (Some ''Alpha'') s_alpha_live)) = archives s_alpha_live"
  by (simp add: stop_def trim_Alpha s_alpha_live_def parse_4242 isAlive_def Let_def log_kill_def
      unlink_pid_def)

text \<open>
  C1, amended. For a world whose registry entry holds a live pid, the HTTP stop route sends
  the termination signal, clears the registry entry and answers \<open>stopped\<close> with the pid; it
  takes no backup. The shutdown backup belongs to the scripts: \<^verbatim>\<open>stop_server\<close> of
  \<^verbatim>\<open>minecraft.sh\<close> runs the backup script on a running server whether or not the stop
  command succeeded, and finishes exactly when the backup script succeeds; the launcher's
  \<^verbatim>\<open>do_backup_on_stop\<close> runs \<^verbatim>\<open>do_backup\<close> when \<^verbatim>\<open>BACKUP_ON_STOP\<close> is \<^verbatim>\<open>TRUE\<close> and
  does nothing otherwise.
\<close>

theorem stop_paths_and_backup:
  "(name \<noteq> [] \<and> trim w = name \<and> pid_files s name = Some ptext \<and> parseInt10 ptext = Some p \<and>
    0 < p \<and> p \<in> procs s \<longrightarrow>
      stop False (Some w) s =
        (Stopped p, unlink_pid name (log_kill p SIGTERM (log_kill p Sig0 s))) \<and>
      pid_files (snd (stop False (Some w) s)) name = None \<and>
      archives (snd (stop False (Some w) s)) = archives s) \<and>
   snd (snd (stop_server True rcon_ok W r d)) = snd (backup_sh W r d) \<and>
   (fst (stop_server True rcon_ok W r d) = Done \<longleftrightarrow> fst (backup_sh W r d) = 0) \<and>
   do_backup_on_stop ''TRUE'' W r d = do_backup W r d \<and>
   (flag \<noteq> ''TRUE'' \<longrightarrow> do_backup_on_stop flag W r d = (Done, d))"
  by (auto simp: stop_def isAlive_def Let_def unlink_pid_def log_kill_def stop_server_def
      do_backup_on_stop_def split: prod.splits)

theorem stop_paths_and_backup_witness:
  "stop False (Some ''Alpha'') s_alpha_live =
     (Stopped 4242, unlink_pid ''Alpha'' (log_kill 4242 SIGTERM (log_kill 4242 Sig0 s_alpha_live))) \<and>
   pid_files (snd (stop False (Some ''Alpha'') s_alpha_live)) ''Alpha'' = None \<and>
   archives (snd (stop False (Some ''Alpha'') s_alpha_live)) = [] \<and>
   snd (snd (stop_server True False ''Alpha'' (run_noon ''s1'') d_morning)) =
     snd (backup_sh ''Alpha'' (run_noon ''s1'') d_morning) \<and>
   do_backup_on_stop ''FALSE'' ''Alpha'' (run_noon ''s1'') d_morning = (Done, d_morning)"
  using stop_paths_and_backup[of "''Alpha''" "''Alpha''" s_alpha_live "''4242''" 4242 False
      "''Alpha''" "run_noon ''s1''" d_morning "''FALSE''"]
  by (simp add: trim_Alpha parse_4242 s_alpha_live_def unlink_pid_def log_kill_def)

end
